theory Spec2Isabelle
  imports Complex_Main
begin

section \<open>EasyBallistics hit prediction (Predict.cpp)\<close>

text \<open>
  A shallow embedding of \<^verbatim>\<open>UEBBarrel::PredictHitFromLocation\<close> and
  \<^verbatim>\<open>UEBBarrel::PredictTrace\<close> from \<^verbatim>\<open>Private/Predict.cpp\<close>.

  Conventions of the model:
  \<^item> a \<^verbatim>\<open>float\<close> is the real it stands for, and the \<^verbatim>\<open>float\<close> operations of the function
    (the addition of line 49, the multiplication and the addition of line 41) round their
    exact result to binary32, to nearest with ties to even and with subnormal numbers;
    overflow, infinities and NaN are outside the model, and so is the rounding of the
    components of vectors, which are exact reals; \<open>MaxTime\<close> and \<open>Step\<close> range over all
    reals, the values a caller can pass being the binary32 ones among them;
  \<^item> an object pointer is an \<open>option\<close>, with \<open>None\<close> for \<^verbatim>\<open>nullptr\<close>;
  \<^item> the reference (out) parameters of the function are the record \<open>outputs\<close>: the
    caller's values go in, the values after the call come back;
  \<^item> the engine calls the function makes (the warning written to the log, the bullet's
    \<^verbatim>\<open>UpdateVelocity\<close>, the world's line trace) are recorded, in order, in a list of
    events, so that "no collision query was made" is a statement about the result;
  \<^item> the \<^verbatim>\<open>while\<close> loop may run forever, so it is a partial function into \<open>option\<close>:
    \<open>None\<close> is "the call never returns".
\<close>

subsection \<open>Vectors and engine arithmetic\<close>

datatype FVector = FVector (X: real) (Y: real) (Z: real)

definition ZeroVector :: FVector where
  "ZeroVector = FVector 0 0 0"

text \<open>\<^verbatim>\<open>FVector::operator+(const FVector&)\<close>, \<^verbatim>\<open>operator-(const FVector&)\<close> and
  \<^verbatim>\<open>operator*(float)\<close>: componentwise.\<close>

fun FVector_plus :: "FVector \<Rightarrow> FVector \<Rightarrow> FVector" where
  "FVector_plus (FVector a b c) (FVector d e f) = FVector (a + d) (b + e) (c + f)"

fun FVector_minus :: "FVector \<Rightarrow> FVector \<Rightarrow> FVector" where
  "FVector_minus (FVector a b c) (FVector d e f) = FVector (a - d) (b - e) (c - f)"

fun FVector_scale :: "FVector \<Rightarrow> real \<Rightarrow> FVector" where
  "FVector_scale (FVector a b c) k = FVector (a * k) (b * k) (c * k)"

text \<open>\<^verbatim>\<open>FMath::Lerp(A, B, Alpha)\<close> of the engine is \<^verbatim>\<open>A + Alpha * (B - A)\<close>, on scalars and on
  vectors.\<close>

definition Lerp :: "real \<Rightarrow> real \<Rightarrow> real \<Rightarrow> real" where
  "Lerp A B Alpha = A + Alpha * (B - A)"

definition FVector_Lerp :: "FVector \<Rightarrow> FVector \<Rightarrow> real \<Rightarrow> FVector" where
  "FVector_Lerp A B Alpha = FVector_plus A (FVector_scale (FVector_minus B A) Alpha)"

text \<open>\<^verbatim>\<open>FVector::GetSafeNormal()\<close> of the engine, with its default tolerance
  \<^verbatim>\<open>SMALL_NUMBER\<close> (1e-8): a vector of squared length 1 is returned as it is, a vector
  shorter than the tolerance gives the zero vector, any other vector is scaled by the
  inverse square root of its squared length.\<close>

definition SMALL_NUMBER :: real where
  "SMALL_NUMBER = 1 / 100000000"

definition GetSafeNormal :: "FVector \<Rightarrow> FVector" where
  "GetSafeNormal V =
     (let SquareSum = X V * X V + Y V * Y V + Z V * Z V
      in if SquareSum = 1 then V
         else if SquareSum < SMALL_NUMBER then ZeroVector
         else FVector_scale V (1 / sqrt SquareSum))"

subsection \<open>Single-precision arithmetic\<close>

text \<open>The binary exponent of a positive real: the \<open>e\<close> with \<open>2^e \<le> x < 2^(e+1)\<close>.\<close>

function Exponent :: "real \<Rightarrow> int" where
  "Exponent x =
     (if x \<le> 0 then 0
      else if x < 1 then Exponent (2 * x) - 1
      else if 2 \<le> x then Exponent (x / 2) + 1
      else 0)"
  by pat_completeness auto
termination
proof (relation "measure (\<lambda>x. nat \<bar>\<lfloor>log 2 x\<rfloor>\<bar>)")
  show "wf (measure (\<lambda>x. nat \<bar>\<lfloor>log 2 x\<rfloor>\<bar>))" by simp
next
  fix x :: real
  assume a: "\<not> x \<le> 0" "x < 1"
  then have "log 2 (2 * x) = 1 + log 2 x" by (simp add: log_mult)
  then have f: "\<lfloor>log 2 (2 * x)\<rfloor> = \<lfloor>log 2 x\<rfloor> + 1" by simp
  from a have "log 2 x < 0" by simp
  then have "\<lfloor>log 2 x\<rfloor> < 0" by (simp add: floor_less_iff)
  then have "nat \<bar>\<lfloor>log 2 x\<rfloor> + 1\<bar> < nat \<bar>\<lfloor>log 2 x\<rfloor>\<bar>" by linarith
  then show "(2 * x, x) \<in> measure (\<lambda>x. nat \<bar>\<lfloor>log 2 x\<rfloor>\<bar>)"
    unfolding in_measure f .
next
  fix x :: real
  assume a: "\<not> x \<le> 0" "\<not> x < 1" "2 \<le> x"
  then have "log 2 (x / 2) = log 2 x - 1" by (simp add: log_divide)
  then have f: "\<lfloor>log 2 (x / 2)\<rfloor> = \<lfloor>log 2 x\<rfloor> - 1" by simp
  from a have "1 \<le> log 2 x" by (simp add: le_log_iff)
  then have "1 \<le> \<lfloor>log 2 x\<rfloor>" by (simp add: le_floor_iff)
  then have "nat \<bar>\<lfloor>log 2 x\<rfloor> - 1\<bar> < nat \<bar>\<lfloor>log 2 x\<rfloor>\<bar>" by linarith
  then show "(x / 2, x) \<in> measure (\<lambda>x. nat \<bar>\<lfloor>log 2 x\<rfloor>\<bar>)"
    unfolding in_measure f .
qed

declare Exponent.simps [simp del]

text \<open>Rounding to the nearest integer, a tie going to the even one.\<close>

definition RoundEven :: "real \<Rightarrow> int" where
  "RoundEven r =
     (let f = \<lfloor>r\<rfloor>; d = r - of_int f
      in if d < 1/2 then f else if 1/2 < d then f + 1 else if even f then f else f + 1)"

text \<open>The exponent binary32 gives a value (that of the smallest normal number for the
  subnormal ones) and the distance between neighbouring binary32 values there: 24
  significant bits.\<close>

definition Exponent32 :: "real \<Rightarrow> int" where
  "Exponent32 x = max (Exponent \<bar>x\<bar>) (-126)"

definition Ulp32 :: "real \<Rightarrow> real" where
  "Ulp32 x = 2 powi (Exponent32 x - 23)"

text \<open>The binary32 value nearest to a real, ties to even. \<^verbatim>\<open>a + b\<close> and \<^verbatim>\<open>a * b\<close> on
  \<^verbatim>\<open>float\<close> operands are \<open>Float32 (a + b)\<close> and \<open>Float32 (a * b)\<close>.\<close>

definition Float32 :: "real \<Rightarrow> real" where
  "Float32 x = of_int (RoundEven (x / Ulp32 x)) * Ulp32 x"

subsection \<open>Engine objects the function reads\<close>

type_synonym AActor = nat

type_synonym ECollisionChannel = nat

text \<open>The fields of \<^verbatim>\<open>FHitResult\<close> that the function reads: \<^verbatim>\<open>Location\<close>, \<^verbatim>\<open>Time\<close> (the
  fraction of the traced segment at which the hit lies) and \<^verbatim>\<open>GetActor()\<close>.\<close>

record FHitResult =
  hit_Location :: FVector
  hit_Time :: real
  hit_GetActor :: "AActor option"

record FCollisionQueryParams =
  bTraceComplex :: bool
  bReturnPhysicalMaterial :: bool
  IgnoredActorList :: "AActor list"

text \<open>A default-constructed \<^verbatim>\<open>FCollisionQueryParams\<close>.\<close>

definition DefaultQueryParams :: FCollisionQueryParams where
  "DefaultQueryParams =
     \<lparr>bTraceComplex = False, bReturnPhysicalMaterial = False, IgnoredActorList = []\<rparr>"

text \<open>\<^verbatim>\<open>AddIgnoredActor\<close> skips a null actor.\<close>

definition AddIgnoredActor :: "AActor option \<Rightarrow> FCollisionQueryParams \<Rightarrow> FCollisionQueryParams" where
  "AddIgnoredActor A Q =
     (case A of None \<Rightarrow> Q | Some a \<Rightarrow> Q\<lparr>IgnoredActorList := IgnoredActorList Q @ [a]\<rparr>)"

definition AddIgnoredActors :: "AActor list \<Rightarrow> FCollisionQueryParams \<Rightarrow> FCollisionQueryParams" where
  "AddIgnoredActors As Q = Q\<lparr>IgnoredActorList := IgnoredActorList Q @ As\<rparr>"

text \<open>The world, for this function, is its line trace: a static world answers a query
  from its arguments alone, and writes the whole hit result.\<close>

record UWorld =
  LineTraceSingleByChannel ::
    "FVector \<Rightarrow> FVector \<Rightarrow> ECollisionChannel \<Rightarrow> FCollisionQueryParams \<Rightarrow> bool \<times> FHitResult"

text \<open>\<^verbatim>\<open>AEBBullet\<close> (EBBullet.h is not among the sources): the members the function
  uses, the velocity-update rule being a function of the world, the position, the
  velocity and the step.\<close>

record AEBBullet =
  MuzzleVelocityMin :: real
  MuzzleVelocityMax :: real
  UpdateVelocity :: "UWorld \<Rightarrow> FVector \<Rightarrow> FVector \<Rightarrow> real \<Rightarrow> FVector"
  TraceComplex :: bool
  SafeLaunch :: bool
  TraceChannel :: ECollisionChannel

text \<open>\<^verbatim>\<open>TSubclassOf<AEBBullet>\<close>: whether the class object is valid, and its default
  object.\<close>

record BulletClass =
  IsValidLowLevel :: bool
  GetDefaultObject :: AEBBullet

record UPrimitiveComponent =
  IsSimulatingPhysics :: bool
  GetPhysicsLinearVelocityAtPoint :: "FVector \<Rightarrow> FVector"

text \<open>The barrel: the properties of EBBarrel.h that the prediction reads, and what the
  component answers for its world, its owner and its attach parent (cast to a primitive
  component, so \<open>None\<close> when there is no parent or it is not a primitive).\<close>

record UEBBarrel =
  InheritVelocity :: real
  AdditionalVelocity :: FVector
  MuzzleVelocityMultiplierMin :: real
  MuzzleVelocityMultiplierMax :: real
  GetWorld :: UWorld
  GetOwner :: "AActor option"
  GetAttachParent :: "UPrimitiveComponent option"

subsection \<open>Outputs, events and the state of the loop\<close>

record outputs =
  Hit :: bool
  HitResult :: FHitResult
  HitLocation :: FVector
  HitTime :: real
  HitActor :: "AActor option"
  Trajectory :: "FVector list"

datatype event =
    LogWarning string
  | UpdateVelocityCall FVector FVector real
  | LineTraceCall FVector FVector

record predict_state =
  Time :: real
  CurrentLocation :: FVector
  Velocity :: FVector
  Out :: outputs
  Events :: "event list"

subsection \<open>PredictTrace (Predict.cpp, lines 59-74)\<close>

text \<open>The query parameters are built as in the source; the response parameters are the
  default-constructed ones in every call, so the trace is not given them.\<close>

definition PredictTrace ::
  "UEBBarrel \<Rightarrow> UWorld \<Rightarrow> AEBBullet \<Rightarrow> FVector \<Rightarrow> FVector \<Rightarrow> AActor list \<Rightarrow> bool \<times> FHitResult" where
  "PredictTrace this World Bullet Start End IgnoredActors =
     (let Q0 = DefaultQueryParams\<lparr>bTraceComplex := TraceComplex Bullet,
                                  bReturnPhysicalMaterial := True\<rparr>;
          Q1 = (if SafeLaunch Bullet then AddIgnoredActor (GetOwner this) Q0 else Q0);
          QueryParams = AddIgnoredActors IgnoredActors Q1
      in LineTraceSingleByChannel World Start End (TraceChannel Bullet) QueryParams)"

subsection \<open>PredictHitFromLocation (Predict.cpp, lines 12-57)\<close>

text \<open>Lines 23-33: the velocity the integration starts from.\<close>

definition InitialVelocity :: "UEBBarrel \<Rightarrow> AEBBullet \<Rightarrow> FVector \<Rightarrow> FVector \<Rightarrow> FVector" where
  "InitialVelocity this Bullet CurLoc AimDirection =
     (let V0 = FVector_scale (GetSafeNormal AimDirection)
                 (Lerp (MuzzleVelocityMultiplierMin this) (MuzzleVelocityMultiplierMax this) (1/2)
                  * Lerp (MuzzleVelocityMin Bullet) (MuzzleVelocityMax Bullet) (1/2));
          Parent = GetAttachParent this;
          V1 = FVector_plus V0 (AdditionalVelocity this)
      in case Parent of
           None \<Rightarrow> V1
         | Some P \<Rightarrow>
             if IsSimulatingPhysics P
             then FVector_plus V1
                    (FVector_scale (GetPhysicsLinearVelocityAtPoint P CurLoc) (InheritVelocity this))
             else V1)"

text \<open>Lines 36-50: one pass through the body of the loop. The flag says whether the
  body returned from the function (a hit) or fell through to the next test of the loop.\<close>

definition LoopBody ::
  "UEBBarrel \<Rightarrow> AEBBullet \<Rightarrow> AActor list \<Rightarrow> real \<Rightarrow> predict_state \<Rightarrow> bool \<times> predict_state" where
  "LoopBody this Bullet IgnoredActors Step s =
     (let PreviousVelocity = Velocity s;
          NewVelocity = UpdateVelocity Bullet (GetWorld this) (CurrentLocation s) (Velocity s) Step;
          End = FVector_plus (CurrentLocation s)
                  (FVector_scale (FVector_Lerp PreviousVelocity NewVelocity (1/2)) Step);
          (h, R) = PredictTrace this (GetWorld this) Bullet (CurrentLocation s) End IgnoredActors;
          E = Events s @ [UpdateVelocityCall (CurrentLocation s) (Velocity s) Step,
                          LineTraceCall (CurrentLocation s) End]
      in if h
         then (True,
               s\<lparr>Velocity := NewVelocity,
                 Out := (Out s)\<lparr>Hit := h, HitResult := R,
                                Trajectory := Trajectory (Out s) @ [hit_Location R],
                                HitTime := Float32 (Time s + Float32 (hit_Time R * Step)),
                                HitActor := hit_GetActor R,
                                HitLocation := hit_Location R\<rparr>,
                 Events := E\<rparr>)
         else (False,
               s\<lparr>Velocity := NewVelocity,
                 Out := (Out s)\<lparr>Hit := h, HitResult := R,
                                Trajectory := Trajectory (Out s) @ [CurrentLocation s]\<rparr>,
                 CurrentLocation :=
                   FVector_plus (CurrentLocation s)
                     (FVector_scale (FVector_Lerp PreviousVelocity NewVelocity (1/2)) Step),
                 Time := Float32 (Time s + Step),
                 Events := E\<rparr>))"

text \<open>Lines 35-51: the loop. It ends with \<open>(True, s)\<close> when the body returned from the
  function and with \<open>(False, s)\<close> when the test \<^verbatim>\<open>Time < MaxTime\<close> failed.\<close>

partial_function (option) PredictLoop ::
  "UEBBarrel \<Rightarrow> AEBBullet \<Rightarrow> AActor list \<Rightarrow> real \<Rightarrow> real \<Rightarrow> predict_state
     \<Rightarrow> (bool \<times> predict_state) option" where
  "PredictLoop this Bullet IgnoredActors MaxTime Step s =
     (if Time s < MaxTime
      then (let (returned, s') = LoopBody this Bullet IgnoredActors Step s
            in if returned then Some (True, s')
               else PredictLoop this Bullet IgnoredActors MaxTime Step s')
      else Some (False, s))"

declare PredictLoop.simps [code]

text \<open>Lines 18-33: the state in which the loop is entered.\<close>

definition InitialState ::
  "UEBBarrel \<Rightarrow> outputs \<Rightarrow> AEBBullet \<Rightarrow> FVector \<Rightarrow> FVector \<Rightarrow> predict_state" where
  "InitialState this out Bullet StartLocation AimDirection =
     \<lparr>Time = 0,
      CurrentLocation = StartLocation,
      Velocity = InitialVelocity this Bullet StartLocation AimDirection,
      Out = out\<lparr>Trajectory := []\<rparr>,
      Events = []\<rparr>"

text \<open>Lines 53-56: the assignments after the loop.\<close>

definition AfterLoop :: "real \<Rightarrow> predict_state \<Rightarrow> outputs" where
  "AfterLoop MaxTime s =
     (Out s)\<lparr>Hit := False, HitTime := MaxTime, HitLocation := CurrentLocation s,
             HitActor := None\<rparr>"

text \<open>The whole function: the outputs after the call and the engine calls made, or
  \<open>None\<close> when the call does not return.\<close>

definition PredictHitFromLocation ::
  "UEBBarrel \<Rightarrow> outputs \<Rightarrow> BulletClass \<Rightarrow> FVector \<Rightarrow> FVector \<Rightarrow> AActor list \<Rightarrow> real \<Rightarrow> real
     \<Rightarrow> (outputs \<times> event list) option" where
  "PredictHitFromLocation this out BulletClass StartLocation AimDirection IgnoredActors MaxTime Step =
     (if \<not> IsValidLowLevel BulletClass
      then Some (out, [LogWarning ''PredictHit - invalid bullet class''])
      else
        (let Bullet = GetDefaultObject BulletClass
         in case PredictLoop this Bullet IgnoredActors MaxTime Step
                   (InitialState this out Bullet StartLocation AimDirection) of
              None \<Rightarrow> None
            | Some (returned, s) \<Rightarrow>
                if returned then Some (Out s, Events s)
                else Some (AfterLoop MaxTime s, Events s)))"

subsection \<open>Counting engine calls, and the integration the specification describes\<close>

text \<open>The number of line traces and of velocity updates among the recorded calls.\<close>

fun TraceCount :: "event list \<Rightarrow> nat" where
  "TraceCount [] = 0"
| "TraceCount (LineTraceCall a b # es) = Suc (TraceCount es)"
| "TraceCount (e # es) = TraceCount es"

fun UpdateCount :: "event list \<Rightarrow> nat" where
  "UpdateCount [] = 0"
| "UpdateCount (UpdateVelocityCall p v d # es) = Suc (UpdateCount es)"
| "UpdateCount (e # es) = UpdateCount es"

text \<open>The value of \<^verbatim>\<open>Time\<close> after \<open>n\<close> executions of \<^verbatim>\<open>Time += Step\<close> (line 49) from
  \<open>t\<close>.\<close>

fun TimeAfter :: "real \<Rightarrow> real \<Rightarrow> nat \<Rightarrow> real" where
  "TimeAfter Step t 0 = t"
| "TimeAfter Step t (Suc n) = Float32 (TimeAfter Step t n + Step)"

text \<open>The integration as the specification words it, to compare the loop with: the
  average of two velocities; one trapezoidal step, which takes the new velocity from the
  update rule \<open>U\<close> and moves the position by the average of the old and the new velocity
  times the step; and \<open>n\<close> such steps from a position and a velocity.\<close>

definition Average :: "FVector \<Rightarrow> FVector \<Rightarrow> FVector" where
  "Average A B = FVector ((X A + X B) / 2) ((Y A + Y B) / 2) ((Z A + Z B) / 2)"

definition TrapezoidStep ::
  "(FVector \<Rightarrow> FVector \<Rightarrow> real \<Rightarrow> FVector) \<Rightarrow> real \<Rightarrow> FVector \<times> FVector \<Rightarrow> FVector \<times> FVector" where
  "TrapezoidStep U dt pv =
     (let p = fst pv; v = snd pv; v' = U p v dt
      in (FVector_plus p (FVector_scale (Average v v') dt), v'))"

fun Integrate ::
  "(FVector \<Rightarrow> FVector \<Rightarrow> real \<Rightarrow> FVector) \<Rightarrow> real \<Rightarrow> nat \<Rightarrow> FVector \<times> FVector \<Rightarrow> FVector \<times> FVector" where
  "Integrate U dt 0 pv = pv"
| "Integrate U dt (Suc n) pv = TrapezoidStep U dt (Integrate U dt n pv)"

text \<open>The states in which a run of the loop from \<open>s0\<close> stands at the test of the loop:
  \<open>s0\<close> itself, and the state after a pass that started before \<open>MaxTime\<close> and did not
  return. The number counts the passes made.\<close>

inductive LoopHead ::
  "UEBBarrel \<Rightarrow> AEBBullet \<Rightarrow> AActor list \<Rightarrow> real \<Rightarrow> real \<Rightarrow> predict_state \<Rightarrow> nat \<Rightarrow> predict_state \<Rightarrow> bool"
  for this Bullet IgnoredActors MaxTime Step s0 where
    entry: "LoopHead this Bullet IgnoredActors MaxTime Step s0 0 s0"
  | pass: "LoopHead this Bullet IgnoredActors MaxTime Step s0 n s \<Longrightarrow> Time s < MaxTime \<Longrightarrow>
           LoopBody this Bullet IgnoredActors Step s = (False, s') \<Longrightarrow>
           LoopHead this Bullet IgnoredActors MaxTime Step s0 (Suc n) s'"

subsection \<open>Concrete scenarios\<close>

text \<open>The scenario of the specification: a bullet without drag (the velocity update
  returns the velocity it is given) of muzzle speed 100, a barrel with multiplier 1, no
  additional velocity and no attach parent, a world without obstacles, and a world with
  one wall, owned by an actor, across the x axis.\<close>

definition ZeroDragUpdate :: "UWorld \<Rightarrow> FVector \<Rightarrow> FVector \<Rightarrow> real \<Rightarrow> FVector" where
  "ZeroDragUpdate W p v dt = v"

definition NoHitResult :: FHitResult where
  "NoHitResult = \<lparr>hit_Location = ZeroVector, hit_Time = 1, hit_GetActor = None\<rparr>"

definition EmptyWorld :: UWorld where
  "EmptyWorld = \<lparr>LineTraceSingleByChannel = (\<lambda>a b c q. (False, NoHitResult))\<rparr>"

definition WallWorld :: "real \<Rightarrow> AActor \<Rightarrow> UWorld" where
  "WallWorld w A =
     \<lparr>LineTraceSingleByChannel = (\<lambda>a b c q.
        if X a \<le> w \<and> w \<le> X b \<and> X a < X b
        then (True, \<lparr>hit_Location = FVector_plus a (FVector_scale (FVector_minus b a) ((w - X a) / (X b - X a))),
                     hit_Time = (w - X a) / (X b - X a),
                     hit_GetActor = Some A\<rparr>)
        else (False, NoHitResult))\<rparr>"

definition ScenarioBullet :: AEBBullet where
  "ScenarioBullet =
     \<lparr>MuzzleVelocityMin = 100, MuzzleVelocityMax = 100, UpdateVelocity = ZeroDragUpdate,
      TraceComplex = False, SafeLaunch = True, TraceChannel = 0\<rparr>"

definition ScenarioClass :: BulletClass where
  "ScenarioClass = \<lparr>IsValidLowLevel = True, GetDefaultObject = ScenarioBullet\<rparr>"

definition InvalidClass :: BulletClass where
  "InvalidClass = \<lparr>IsValidLowLevel = False, GetDefaultObject = ScenarioBullet\<rparr>"

definition ScenarioBarrel :: "UWorld \<Rightarrow> UEBBarrel" where
  "ScenarioBarrel W =
     \<lparr>InheritVelocity = 1, AdditionalVelocity = ZeroVector,
      MuzzleVelocityMultiplierMin = 1, MuzzleVelocityMultiplierMax = 1,
      GetWorld = W, GetOwner = None, GetAttachParent = None\<rparr>"

definition DefaultOutputs :: outputs where
  "DefaultOutputs =
     \<lparr>Hit = False, HitResult = NoHitResult, HitLocation = ZeroVector, HitTime = 0,
      HitActor = None, Trajectory = []\<rparr>"

text \<open>What a caller reads of a prediction: the hit flag, the location, the time, the
  actor and the trajectory.\<close>

definition Outcome :: "outputs \<Rightarrow> bool \<times> FVector \<times> real \<times> AActor option \<times> FVector list" where
  "Outcome out = (Hit out, HitLocation out, HitTime out, HitActor out, Trajectory out)"

text \<open>Two states of the loop that differ at most in the outputs a pass overwrites or
  never reads: the hit flag, the hit result, the location, the time and the actor.\<close>

definition SameRun :: "predict_state \<Rightarrow> predict_state \<Rightarrow> bool" where
  "SameRun s1 s2 \<longleftrightarrow>
     Time s1 = Time s2 \<and> CurrentLocation s1 = CurrentLocation s2 \<and> Velocity s1 = Velocity s2 \<and>
     Events s1 = Events s2 \<and> Trajectory (Out s1) = Trajectory (Out s2)"


section \<open>Properties\<close>

subsection \<open>Rounding to binary32\<close>

lemma Ulp32_Exponent32: "Ulp32 x = 2 powi (Exponent32 x - 23)"
  by (simp add: Ulp32_def)

lemma powi2_Suc: "(2::real) powi (e + 1) = 2 * 2 powi e"
  by (simp add: power_int_add)

lemma powi2_pred: "(2::real) powi (e - 1) = 2 powi e / 2"
  by (simp add: power_int_diff)

lemma powi2_mono: "a \<le> b \<Longrightarrow> (2::real) powi a \<le> 2 powi b"
  by (rule power_int_increasing) simp_all

lemma powi2_less_imp: "(2::real) powi a < 2 powi b \<Longrightarrow> a < b"
  using powi2_mono [of b a] by (cases "a < b") simp_all

lemma powi2_24: "(2::real) powi (e - 23) * 2 ^ 24 = 2 powi (e + 1)"
proof -
  have "(2::real) powi ((e - 23) + 24) = 2 powi (e - 23) * 2 powi 24"
    by (rule power_int_add) simp
  moreover have "e - 23 + 24 = e + 1" by simp
  ultimately have "(2::real) powi (e + 1) = 2 powi (e - 23) * 2 powi 24" by (simp only:)
  then show ?thesis by simp
qed

lemma powi2_23: "(2::real) powi (e - 23) * 2 ^ 23 = 2 powi e"
proof -
  have "(2::real) powi e = 2 powi ((e - 23) + 23)" by simp
  also have "\<dots> = 2 powi (e - 23) * 2 powi 23" by (rule power_int_add) simp
  finally show ?thesis by simp
qed

lemma powi2_24_numeral: "(2::real) powi (e - 23) * 16777216 = 2 powi (e + 1)"
  using powi2_24 [of e] by simp

lemma powi2_23_numeral: "(2::real) powi (e - 23) * 8388608 = 2 powi e"
  using powi2_23 [of e] by simp

lemma powi2_strict: "a < b \<Longrightarrow> (2::real) powi a < 2 powi b"
  by (rule power_int_strict_increasing) simp_all

lemma Exponent_spec:
  "0 < x \<Longrightarrow> 2 powi Exponent x \<le> x \<and> x < 2 powi (Exponent x + 1)"
proof (induction x rule: Exponent.induct)
  case (1 x)
  show ?case
  proof (cases "x < 1")
    case True
    with 1 have e: "Exponent x = Exponent (2 * x) - 1" by (subst Exponent.simps) simp
    from 1(1) [OF _ True] 1(3)
    have "2 powi Exponent (2 * x) \<le> 2 * x \<and> 2 * x < 2 powi (Exponent (2 * x) + 1)" by simp
    then show ?thesis unfolding e by (simp add: powi2_pred powi2_Suc)
  next
    case False
    show ?thesis
    proof (cases "2 \<le> x")
      case True
      with False 1 have e: "Exponent x = Exponent (x / 2) + 1" by (subst Exponent.simps) simp
      from 1(2) [OF _ False True] 1(3)
      have "2 powi Exponent (x / 2) \<le> x / 2 \<and> x / 2 < 2 powi (Exponent (x / 2) + 1)" by simp
      then show ?thesis unfolding e powi2_Suc by linarith
    next
      case f2: False
      with False 1 have "Exponent x = 0" by (subst Exponent.simps) simp
      with False f2 show ?thesis by simp
    qed
  qed
qed

lemma Exponent_le:
  assumes "0 < x" and "x < 2 powi (k + 1)"
  shows "Exponent x \<le> k"
proof -
  from Exponent_spec [OF assms(1)] assms(2) have "(2::real) powi Exponent x < 2 powi (k + 1)" by simp
  from powi2_less_imp [OF this] show ?thesis by simp
qed

lemma Exponent_ge:
  assumes "0 < x" and "2 powi k \<le> x"
  shows "k \<le> Exponent x"
proof -
  from Exponent_spec [OF assms(1)] assms(2) have "(2::real) powi k < 2 powi (Exponent x + 1)" by simp
  from powi2_less_imp [OF this] show ?thesis by simp
qed

lemma Exponent32_upper: "0 < x \<Longrightarrow> x < 2 powi (Exponent32 x + 1)"
proof -
  assume p: "0 < x"
  then have "x < 2 powi (Exponent x + 1)" using Exponent_spec by blast
  also have "\<dots> \<le> 2 powi (Exponent32 x + 1)"
    using p by (intro powi2_mono) (simp add: Exponent32_def)
  finally show ?thesis .
qed

lemma Exponent32_lower: "0 < x \<Longrightarrow> - 126 < Exponent32 x \<Longrightarrow> 2 powi Exponent32 x \<le> x"
proof -
  assume p: "0 < x" and "- 126 < Exponent32 x"
  then have "Exponent32 x = Exponent x" by (simp add: Exponent32_def)
  with Exponent_spec [OF p] show ?thesis by simp
qed

lemma Exponent32_mono: "0 < x \<Longrightarrow> x \<le> y \<Longrightarrow> Exponent32 x \<le> Exponent32 y"
proof -
  assume p: "0 < x" and l: "x \<le> y"
  then have "2 powi Exponent x \<le> y" using Exponent_spec [OF p] by simp
  with p l have "Exponent x \<le> Exponent y" by (intro Exponent_ge) simp_all
  with p l show ?thesis by (simp add: Exponent32_def)
qed

lemma RoundEven_int: "RoundEven (of_int m) = m"
  by (simp add: RoundEven_def)

lemma RoundEven_floor: "\<lfloor>r\<rfloor> \<le> RoundEven r \<and> RoundEven r \<le> \<lfloor>r\<rfloor> + 1"
  by (simp add: RoundEven_def Let_def)

lemma RoundEven_ge:
  assumes "of_int m \<le> r"
  shows "m \<le> RoundEven r"
proof -
  from assms have "m \<le> \<lfloor>r\<rfloor>" by (simp add: le_floor_iff)
  with RoundEven_floor [of r] show ?thesis by simp
qed

lemma RoundEven_le:
  assumes "r \<le> of_int m"
  shows "RoundEven r \<le> m"
proof (cases "r = of_int m")
  case True
  then show ?thesis by (simp add: RoundEven_int)
next
  case False
  with assms have "r < of_int m" by simp
  then have "\<lfloor>r\<rfloor> < m" by (simp add: floor_less_iff)
  with RoundEven_floor [of r] show ?thesis by simp
qed

lemma RoundEven_mono:
  assumes "r \<le> r'"
  shows "RoundEven r \<le> RoundEven r'"
proof (cases "\<lfloor>r\<rfloor> = \<lfloor>r'\<rfloor>")
  case True
  with assms have "r - of_int \<lfloor>r\<rfloor> \<le> r' - of_int \<lfloor>r'\<rfloor>" by simp
  with True show ?thesis by (auto simp: RoundEven_def Let_def)
next
  case False
  with assms have "\<lfloor>r\<rfloor> < \<lfloor>r'\<rfloor>" using floor_mono [OF assms] by simp
  with RoundEven_floor [of r] RoundEven_floor [of r'] show ?thesis by simp
qed

lemma Ulp32_pos: "0 < Ulp32 x"
  by (simp add: Ulp32_def)

lemma Float32_0: "Float32 0 = 0"
  by (simp add: Float32_def RoundEven_def)

lemma Float32_nonneg:
  assumes "0 \<le> x"
  shows "0 \<le> Float32 x"
proof -
  from assms Ulp32_pos [of x] have "of_int 0 \<le> x / Ulp32 x" by simp
  from RoundEven_ge [OF this] Ulp32_pos [of x] show ?thesis by (simp add: Float32_def)
qed

lemma Float32_upper:
  assumes "0 < x"
  shows "Float32 x \<le> 2 powi (Exponent32 x + 1)"
proof -
  let ?u = "Ulp32 x"
  have u: "0 < ?u" by (rule Ulp32_pos)
  from Exponent32_upper [OF assms] have "x < ?u * 16777216"
    by (simp add: Ulp32_Exponent32 powi2_24_numeral)
  with u have "x / ?u \<le> of_int 16777216" by (simp add: pos_divide_le_eq mult.commute)
  from RoundEven_le [OF this] have "of_int (RoundEven (x / ?u)) * ?u \<le> of_int 16777216 * ?u"
    using u by (intro mult_right_mono) simp_all
  also have "of_int 16777216 * ?u = 2 powi (Exponent32 x + 1)"
    using powi2_24_numeral [of "Exponent32 x"] by (simp add: Ulp32_Exponent32 mult.commute)
  finally show ?thesis by (simp add: Float32_def)
qed

lemma Float32_lower:
  assumes "0 < x" and "2 powi Exponent32 x \<le> x"
  shows "2 powi Exponent32 x \<le> Float32 x"
proof -
  let ?u = "Ulp32 x"
  have u: "0 < ?u" by (rule Ulp32_pos)
  from assms(2) have "?u * 8388608 \<le> x" by (simp add: Ulp32_Exponent32 powi2_23_numeral)
  with u have "of_int 8388608 \<le> x / ?u" by (simp add: pos_le_divide_eq mult.commute)
  from RoundEven_ge [OF this] have "of_int 8388608 * ?u \<le> of_int (RoundEven (x / ?u)) * ?u"
    using u by (intro mult_right_mono) simp_all
  moreover have "of_int 8388608 * ?u = 2 powi Exponent32 x"
    using powi2_23_numeral [of "Exponent32 x"] by (simp add: Ulp32_Exponent32 mult.commute)
  ultimately show ?thesis by (simp add: Float32_def)
qed

lemma Float32_mono:
  assumes "0 \<le> x" and "x \<le> y"
  shows "Float32 x \<le> Float32 y"
proof (cases "x = 0")
  case True
  with assms Float32_nonneg [of y] show ?thesis by (simp add: Float32_0)
next
  case False
  with assms have p: "0 < x" "0 < y" by simp_all
  have le: "Exponent32 x \<le> Exponent32 y" by (rule Exponent32_mono [OF p(1) assms(2)])
  show ?thesis
  proof (cases "Exponent32 x = Exponent32 y")
    case True
    then have u: "Ulp32 y = Ulp32 x" by (simp add: Ulp32_Exponent32)
    from assms(2) Ulp32_pos [of x] have "x / Ulp32 x \<le> y / Ulp32 x" by (simp add: divide_right_mono)
    from RoundEven_mono [OF this] Ulp32_pos [of x] show ?thesis
      by (simp add: Float32_def u mult_right_mono)
  next
    case False
    with le have l: "Exponent32 x + 1 \<le> Exponent32 y" by simp
    have "- 126 \<le> Exponent32 x" by (simp add: Exponent32_def)
    with l have "- 126 < Exponent32 y" by simp
    from Exponent32_lower [OF p(2) this] have "2 powi Exponent32 y \<le> Float32 y"
      by (rule Float32_lower [OF p(2)])
    moreover have "Float32 x \<le> 2 powi (Exponent32 x + 1)" by (rule Float32_upper [OF p(1)])
    moreover have "(2::real) powi (Exponent32 x + 1) \<le> 2 powi Exponent32 y" by (rule powi2_mono [OF l])
    ultimately show ?thesis by simp
  qed
qed

lemma Float32_idem:
  assumes "0 \<le> x"
  shows "Float32 (Float32 x) = Float32 x"
proof (cases "Float32 x = 0")
  case True
  then show ?thesis by (simp add: Float32_0)
next
  case False
  let ?y = "Float32 x"
  let ?e = "Exponent32 x"
  let ?m = "RoundEven (x / Ulp32 x)"
  from False Float32_nonneg [OF assms] have py: "0 < ?y" by simp
  from False assms have px: "0 < x" by (cases "x = 0") (simp_all add: Float32_0)
  have y: "?y = of_int ?m * 2 powi (?e - 23)" by (simp add: Float32_def Ulp32_Exponent32)
  have up: "?y \<le> 2 powi (?e + 1)" by (rule Float32_upper [OF px])
  have ge: "?e \<le> Exponent32 ?y"
  proof (cases "- 126 < ?e")
    case True
    from Exponent32_lower [OF px True] have "2 powi ?e \<le> ?y" by (rule Float32_lower [OF px])
    from Exponent_ge [OF py this] py show ?thesis by (simp add: Exponent32_def)
  next
    case False
    then have "?e = - 126" by (simp add: Exponent32_def)
    then show ?thesis by (simp add: Exponent32_def)
  qed
  show ?thesis
  proof (cases "?y = 2 powi (?e + 1)")
    case True
    have "Exponent ?y = ?e + 1"
    proof (rule antisym)
      show "Exponent ?y \<le> ?e + 1"
        by (rule Exponent_le [OF py]) (simp only: True, rule powi2_strict, simp)
      show "?e + 1 \<le> Exponent ?y"
        by (rule Exponent_ge [OF py]) (simp add: True)
    qed
    moreover have "- 126 \<le> ?e" by (simp add: Exponent32_def)
    ultimately have e: "Exponent32 ?y = ?e + 1" using py by (simp add: Exponent32_def)
    have u: "Ulp32 ?y = 2 powi (?e + 1 - 23)" by (simp only: Ulp32_Exponent32 e)
    have q: "(2::real) powi (?e + 1 - 23) * 8388608 = ?y"
      by (simp only: powi2_23_numeral True)
    have "0 < (2::real) powi (?e + 1 - 23)" by simp
    with q have "?y / 2 powi (?e + 1 - 23) = of_int 8388608"
      by (simp add: field_simps)
    then have "RoundEven (?y / Ulp32 ?y) = 8388608"
      using RoundEven_int [of 8388608] by (simp only: u)
    then have "Float32 ?y = of_int 8388608 * 2 powi (?e + 1 - 23)"
      unfolding Float32_def [of ?y] by (simp only: u)
    with q show ?thesis by (simp add: mult.commute)
  next
    case False
    with up have "?y < 2 powi (?e + 1)" by simp
    from Exponent_le [OF py this] have "Exponent32 ?y \<le> ?e"
      using py by (simp add: Exponent32_def)
    with ge have e: "Exponent32 ?y = ?e" by simp
    have u: "Ulp32 ?y = 2 powi (?e - 23)" by (simp only: Ulp32_Exponent32 e)
    have "?y / 2 powi (?e - 23) = of_int ?m" by (subst y) simp
    then have "?y / Ulp32 ?y = of_int ?m" by (simp only: u)
    then have "RoundEven (?y / Ulp32 ?y) = ?m" by (simp only: RoundEven_int)
    then have "Float32 ?y = of_int ?m * 2 powi (?e - 23)"
      unfolding Float32_def [of ?y] by (simp only: u)
    with y show ?thesis by simp
  qed
qed

lemmas Float32_eval = Float32_def Ulp32_def Exponent32_def RoundEven_def Let_def Exponent.simps

lemma TimeAfter_shift:
  "TimeAfter Step (Float32 (t + Step)) n = TimeAfter Step t (Suc n)"
  by (induction n) simp_all

lemma TimeAfter_nonneg:
  assumes "0 \<le> Step"
  shows "0 \<le> TimeAfter Step 0 n"
proof (induction n)
  case 0
  show ?case by simp
next
  case (Suc n)
  with assms show ?case by (simp add: Float32_nonneg)
qed

lemma TimeAfter_representable:
  assumes "0 \<le> Step"
  shows "Float32 (TimeAfter Step 0 n) = TimeAfter Step 0 n"
proof (cases n)
  case 0
  then show ?thesis by (simp add: Float32_0)
next
  case (Suc m)
  from assms TimeAfter_nonneg [OF assms, of m] have "0 \<le> TimeAfter Step 0 m + Step" by simp
  from Float32_idem [OF this] Suc show ?thesis by simp
qed

lemma TimeAfter_mono:
  assumes "0 \<le> Step"
  shows "TimeAfter Step 0 n \<le> TimeAfter Step 0 (Suc n)"
proof -
  have "Float32 (TimeAfter Step 0 n) \<le> Float32 (TimeAfter Step 0 n + Step)"
    using assms by (intro Float32_mono TimeAfter_nonneg) simp_all
  then show ?thesis by (simp add: TimeAfter_representable [OF assms])
qed

lemma TimeAfter_zero_Step: "TimeAfter 0 0 n = 0"
  by (induction n) (simp_all add: Float32_0)

subsection \<open>The body of the loop and the loop\<close>

lemma TraceCount_append: "TraceCount (xs @ ys) = TraceCount xs + TraceCount ys"
  by (induction xs rule: TraceCount.induct) auto

lemma UpdateCount_append: "UpdateCount (xs @ ys) = UpdateCount xs + UpdateCount ys"
  by (induction xs rule: UpdateCount.induct) auto

lemma FVector_Lerp_half: "FVector_Lerp A B (1/2) = Average A B"
  by (cases A; cases B) (simp add: FVector_Lerp_def Average_def field_simps)

lemma LoopBody_fall_through:
  assumes "LoopBody this Bullet Ign Step s = (False, s')"
  shows "Time s' = Float32 (Time s + Step)"
    and "Trajectory (Out s') = Trajectory (Out s) @ [CurrentLocation s]"
    and "(CurrentLocation s', Velocity s') =
           TrapezoidStep (UpdateVelocity Bullet (GetWorld this)) Step (CurrentLocation s, Velocity s)"
    and "Events s' = Events s @
           [UpdateVelocityCall (CurrentLocation s) (Velocity s) Step,
            LineTraceCall (CurrentLocation s)
              (fst (TrapezoidStep (UpdateVelocity Bullet (GetWorld this)) Step (CurrentLocation s, Velocity s)))]"
    and "\<not> Hit (Out s')"
  using assms
  by (auto simp: LoopBody_def Let_def TrapezoidStep_def FVector_Lerp_half split: prod.splits if_splits)

lemma LoopBody_return:
  assumes "LoopBody this Bullet Ign Step s = (True, s')"
  shows "Time s' = Time s"
    and "Trajectory (Out s') = Trajectory (Out s) @ [hit_Location (HitResult (Out s'))]"
    and "HitTime (Out s') = Float32 (Time s + Float32 (hit_Time (HitResult (Out s')) * Step))"
    and "HitLocation (Out s') = hit_Location (HitResult (Out s'))"
    and "HitActor (Out s') = hit_GetActor (HitResult (Out s'))"
    and "Hit (Out s')"
    and "Events s' = Events s @
           [UpdateVelocityCall (CurrentLocation s) (Velocity s) Step,
            LineTraceCall (CurrentLocation s)
              (fst (TrapezoidStep (UpdateVelocity Bullet (GetWorld this)) Step (CurrentLocation s, Velocity s)))]"
    and "(True, HitResult (Out s')) = PredictTrace this (GetWorld this) Bullet (CurrentLocation s)
            (fst (TrapezoidStep (UpdateVelocity Bullet (GetWorld this)) Step (CurrentLocation s, Velocity s))) Ign"
  using assms
  by (auto simp: LoopBody_def Let_def TrapezoidStep_def FVector_Lerp_half split: prod.splits if_splits)

lemma PredictLoop_exit:
  "\<not> Time s < MaxTime \<Longrightarrow> PredictLoop this Bullet Ign MaxTime Step s = Some (False, s)"
  by (subst PredictLoop.simps) simp

lemma PredictLoop_return:
  "Time s < MaxTime \<Longrightarrow> LoopBody this Bullet Ign Step s = (True, s') \<Longrightarrow>
   PredictLoop this Bullet Ign MaxTime Step s = Some (True, s')"
  by (subst PredictLoop.simps) simp

lemma PredictLoop_pass:
  "Time s < MaxTime \<Longrightarrow> LoopBody this Bullet Ign Step s = (False, s') \<Longrightarrow>
   PredictLoop this Bullet Ign MaxTime Step s = PredictLoop this Bullet Ign MaxTime Step s'"
  by (subst PredictLoop.simps) simp

lemma LoopHead_prepend:
  assumes "LoopHead this Bullet Ign MaxTime Step s1 n s"
    and "Time s0 < MaxTime" and "LoopBody this Bullet Ign Step s0 = (False, s1)"
  shows "LoopHead this Bullet Ign MaxTime Step s0 (Suc n) s"
  using assms
proof (induction rule: LoopHead.induct)
  case entry
  then show ?case using LoopHead.pass [OF LoopHead.entry] by blast
next
  case (pass n s s')
  then show ?case using LoopHead.pass by blast
qed

lemma PredictLoop_LoopHead_aux:
  assumes "PredictLoop this Bullet Ign MaxTime Step s0 = Some y"
  shows "\<exists>n s. LoopHead this Bullet Ign MaxTime Step s0 n s \<and>
           (if fst y then Time s < MaxTime \<and> LoopBody this Bullet Ign Step s = (True, snd y)
            else snd y = s \<and> \<not> Time s < MaxTime)"
proof (rule PredictLoop.raw_induct [where P = "\<lambda>this Bullet Ign MaxTime Step s0 y.
    \<exists>n s. LoopHead this Bullet Ign MaxTime Step s0 n s \<and>
           (if fst y then Time s < MaxTime \<and> LoopBody this Bullet Ign Step s = (True, snd y)
            else snd y = s \<and> \<not> Time s < MaxTime)", OF _ assms])
  fix f this Bullet Ign MaxTime Step s y
  assume IH: "\<And>this Bullet Ign MaxTime Step s y. f this Bullet Ign MaxTime Step s = Some y \<Longrightarrow>
     \<exists>n s'. LoopHead this Bullet Ign MaxTime Step s n s' \<and>
           (if fst y then Time s' < MaxTime \<and> LoopBody this Bullet Ign Step s' = (True, snd y)
            else snd y = s' \<and> \<not> Time s' < MaxTime)"
  assume eq: "(if Time s < MaxTime
      then let (returned, s') = LoopBody this Bullet Ign Step s
           in if returned then Some (True, s')
              else f this Bullet Ign MaxTime Step s'
      else Some (False, s)) = Some y"
  show "\<exists>n s'. LoopHead this Bullet Ign MaxTime Step s n s' \<and>
           (if fst y then Time s' < MaxTime \<and> LoopBody this Bullet Ign Step s' = (True, snd y)
            else snd y = s' \<and> \<not> Time s' < MaxTime)"
  proof (cases "Time s < MaxTime")
    case False
    with eq have y: "y = (False, s)" by simp
    show ?thesis
      apply (rule exI [of _ 0], rule exI [of _ s])
      using False y by (simp add: LoopHead.entry)
  next
    case True
    obtain h s1 where b: "LoopBody this Bullet Ign Step s = (h, s1)"
      by (cases "LoopBody this Bullet Ign Step s")
    show ?thesis
    proof (cases h)
      case True
      with eq b \<open>Time s < MaxTime\<close> have y: "y = (True, s1)" by simp
      show ?thesis
        apply (rule exI [of _ 0], rule exI [of _ s])
        using True b \<open>Time s < MaxTime\<close> y by (simp add: LoopHead.entry)
    next
      case False
      with eq b True have "f this Bullet Ign MaxTime Step s1 = Some y" by simp
      from IH [OF this] obtain n s2 where
        h: "LoopHead this Bullet Ign MaxTime Step s1 n s2"
        and e: "if fst y then Time s2 < MaxTime \<and> LoopBody this Bullet Ign Step s2 = (True, snd y)
          else snd y = s2 \<and> \<not> Time s2 < MaxTime" by blast
      from b False have b': "LoopBody this Bullet Ign Step s = (False, s1)" by simp
      have "LoopHead this Bullet Ign MaxTime Step s (Suc n) s2"
        by (rule LoopHead_prepend [OF h True b'])
      with e show ?thesis by blast
    qed
  qed
qed

lemma PredictLoop_LoopHead:
  assumes "PredictLoop this Bullet Ign MaxTime Step s0 = Some (r, s')"
  shows "\<exists>n s. LoopHead this Bullet Ign MaxTime Step s0 n s \<and>
           (if r then Time s < MaxTime \<and> LoopBody this Bullet Ign Step s = (True, s')
            else s' = s \<and> \<not> Time s < MaxTime)"
  using PredictLoop_LoopHead_aux [OF assms] by (cases r) simp_all

lemma LoopHead_Time:
  "LoopHead this Bullet Ign MaxTime Step s0 n s \<Longrightarrow> Time s = TimeAfter Step (Time s0) n"
proof (induction rule: LoopHead.induct)
  case entry
  show ?case by simp
next
  case (pass n s s')
  from LoopBody_fall_through(1) [OF pass.hyps(3)] pass.IH show ?case by simp
qed

lemma LoopHead_earlier:
  "LoopHead this Bullet Ign MaxTime Step s0 n s \<Longrightarrow> k < n \<Longrightarrow>
   TimeAfter Step (Time s0) k < MaxTime"
proof (induction rule: LoopHead.induct)
  case entry
  then show ?case by simp
next
  case (pass n s s')
  show ?case
  proof (cases "k < n")
    case True
    then show ?thesis by (rule pass.IH)
  next
    case False
    with pass.prems have "k = n" by simp
    with pass.hyps(2) LoopHead_Time [OF pass.hyps(1)] show ?thesis by simp
  qed
qed

lemma LoopHead_Integrate:
  "LoopHead this Bullet Ign MaxTime Step s0 n s \<Longrightarrow>
   (CurrentLocation s, Velocity s) =
     Integrate (UpdateVelocity Bullet (GetWorld this)) Step n (CurrentLocation s0, Velocity s0)"
proof (induction rule: LoopHead.induct)
  case entry
  show ?case by simp
next
  case (pass n s s')
  from LoopBody_fall_through(3) [OF pass.hyps(3)] pass.IH show ?case by simp
qed

lemma LoopHead_Trajectory:
  "LoopHead this Bullet Ign MaxTime Step s0 n s \<Longrightarrow>
   Trajectory (Out s) = Trajectory (Out s0) @
     map (\<lambda>i. fst (Integrate (UpdateVelocity Bullet (GetWorld this)) Step i
                      (CurrentLocation s0, Velocity s0))) [0..<n]"
proof (induction rule: LoopHead.induct)
  case entry
  show ?case by simp
next
  case (pass n s s')
  have "CurrentLocation s =
     fst (Integrate (UpdateVelocity Bullet (GetWorld this)) Step n (CurrentLocation s0, Velocity s0))"
    using LoopHead_Integrate [OF pass.hyps(1)] by (metis fst_conv)
  with LoopBody_fall_through(2) [OF pass.hyps(3)] pass.IH show ?case by simp
qed

lemma LoopHead_TraceCount:
  "LoopHead this Bullet Ign MaxTime Step s0 n s \<Longrightarrow>
   TraceCount (Events s) = TraceCount (Events s0) + n"
proof (induction rule: LoopHead.induct)
  case entry
  show ?case by simp
next
  case (pass n s s')
  from LoopBody_fall_through(4) [OF pass.hyps(3)] pass.IH show ?case
    by (simp add: TraceCount_append)
qed

lemma LoopHead_UpdateCount:
  "LoopHead this Bullet Ign MaxTime Step s0 n s \<Longrightarrow>
   UpdateCount (Events s) = UpdateCount (Events s0) + n"
proof (induction rule: LoopHead.induct)
  case entry
  show ?case by simp
next
  case (pass n s s')
  from LoopBody_fall_through(4) [OF pass.hyps(3)] pass.IH show ?case
    by (simp add: UpdateCount_append)
qed

lemma PredictTrace_is_LineTrace:
  "\<exists>Q. PredictTrace this World Bullet Start End Ign =
        LineTraceSingleByChannel World Start End (TraceChannel Bullet) Q"
  unfolding PredictTrace_def Let_def by (rule exI) (rule refl)

lemma LoopBody_fst:
  "\<exists>End. fst (LoopBody this Bullet Ign Step s) =
     fst (PredictTrace this (GetWorld this) Bullet (CurrentLocation s) End Ign)"
  by (rule exI [of _ "FVector_plus (CurrentLocation s)
           (FVector_scale (FVector_Lerp (Velocity s)
              (UpdateVelocity Bullet (GetWorld this) (CurrentLocation s) (Velocity s) Step) (1/2)) Step)"])
     (simp add: LoopBody_def Let_def split: prod.splits)

lemma LoopBody_never_hit:
  assumes "\<And>a b c q. \<not> fst (LineTraceSingleByChannel (GetWorld this) a b c q)"
  shows "\<not> fst (LoopBody this Bullet Ign Step s)"
proof -
  obtain End where e: "fst (LoopBody this Bullet Ign Step s) =
     fst (PredictTrace this (GetWorld this) Bullet (CurrentLocation s) End Ign)"
    using LoopBody_fst by blast
  obtain Q where "PredictTrace this (GetWorld this) Bullet (CurrentLocation s) End Ign =
        LineTraceSingleByChannel (GetWorld this) (CurrentLocation s) End (TraceChannel Bullet) Q"
    using PredictTrace_is_LineTrace by blast
  with e assms show ?thesis by simp
qed

lemma PredictLoop_never_hit_run:
  assumes nh: "\<And>a b c q. \<not> fst (LineTraceSingleByChannel (GetWorld this) a b c q)"
  shows "(\<forall>k<n. TimeAfter Step (Time s0) k < MaxTime) \<Longrightarrow>
         \<exists>s. LoopHead this Bullet Ign MaxTime Step s0 n s \<and>
             PredictLoop this Bullet Ign MaxTime Step s0 = PredictLoop this Bullet Ign MaxTime Step s"
proof (induction n)
  case 0
  show ?case using LoopHead.entry by blast
next
  case (Suc n)
  then have "\<forall>k<n. TimeAfter Step (Time s0) k < MaxTime" by simp
  from Suc.IH [OF this] obtain s where
    h: "LoopHead this Bullet Ign MaxTime Step s0 n s"
    and e: "PredictLoop this Bullet Ign MaxTime Step s0 = PredictLoop this Bullet Ign MaxTime Step s"
    by blast
  from Suc.prems LoopHead_Time [OF h] have t: "Time s < MaxTime" by simp
  have "\<not> fst (LoopBody this Bullet Ign Step s)" by (rule LoopBody_never_hit [OF nh])
  then obtain s' where b: "LoopBody this Bullet Ign Step s = (False, s')"
    by (cases "LoopBody this Bullet Ign Step s") auto
  have "LoopHead this Bullet Ign MaxTime Step s0 (Suc n) s'" by (rule LoopHead.pass [OF h t b])
  moreover have "PredictLoop this Bullet Ign MaxTime Step s0 = PredictLoop this Bullet Ign MaxTime Step s'"
    using e PredictLoop_pass [OF t b] by simp
  ultimately show ?case by blast
qed

subsection \<open>Evaluating the scenarios\<close>

lemma LoopBody_scenario:
  "LoopBody (ScenarioBarrel EmptyWorld) ScenarioBullet Ign dt
     \<lparr>Time = t, CurrentLocation = FVector x y z, Velocity = FVector vx vy vz, Out = out, Events = ev\<rparr>
   = (False,
      \<lparr>Time = Float32 (t + dt),
       CurrentLocation = FVector (x + vx * dt) (y + vy * dt) (z + vz * dt),
       Velocity = FVector vx vy vz,
       Out = out\<lparr>Hit := False, HitResult := NoHitResult,
                   Trajectory := Trajectory out @ [FVector x y z]\<rparr>,
       Events = ev @ [UpdateVelocityCall (FVector x y z) (FVector vx vy vz) dt,
                      LineTraceCall (FVector x y z) (FVector (x + vx * dt) (y + vy * dt) (z + vz * dt))]\<rparr>)"
  by (simp add: LoopBody_def PredictTrace_def ScenarioBarrel_def EmptyWorld_def ScenarioBullet_def
        ZeroDragUpdate_def FVector_Lerp_def Let_def)

lemma PredictLoop_scenario_pass:
  "t < MaxTime \<Longrightarrow>
   PredictLoop (ScenarioBarrel EmptyWorld) ScenarioBullet Ign MaxTime dt
     \<lparr>Time = t, CurrentLocation = FVector x y z, Velocity = FVector vx vy vz, Out = out, Events = ev\<rparr>
   = PredictLoop (ScenarioBarrel EmptyWorld) ScenarioBullet Ign MaxTime dt
      \<lparr>Time = Float32 (t + dt),
       CurrentLocation = FVector (x + vx * dt) (y + vy * dt) (z + vz * dt),
       Velocity = FVector vx vy vz,
       Out = out\<lparr>Hit := False, HitResult := NoHitResult,
                   Trajectory := Trajectory out @ [FVector x y z]\<rparr>,
       Events = ev @ [UpdateVelocityCall (FVector x y z) (FVector vx vy vz) dt,
                      LineTraceCall (FVector x y z) (FVector (x + vx * dt) (y + vy * dt) (z + vz * dt))]\<rparr>"
  by (rule PredictLoop_pass [OF _ LoopBody_scenario]) simp

lemma InitialState_scenario:
  "InitialState (ScenarioBarrel W) out ScenarioBullet (FVector 0 0 0) (FVector 1 0 0)
   = \<lparr>Time = 0, CurrentLocation = FVector 0 0 0, Velocity = FVector 100 0 0,
      Out = out\<lparr>Trajectory := []\<rparr>, Events = []\<rparr>"
  by (simp add: InitialState_def InitialVelocity_def GetSafeNormal_def Lerp_def ScenarioBarrel_def
        ScenarioBullet_def ZeroVector_def Let_def)

subsection \<open>A loop that never ends\<close>

text \<open>When no line trace hits and the time never reaches \<open>MaxTime\<close>, the loop has no
  result.\<close>

lemma PredictLoop_diverges:
  assumes nh: "\<And>a b c q. \<not> fst (LineTraceSingleByChannel (GetWorld this) a b c q)"
    and t: "\<And>k. TimeAfter Step (Time s0) k < MaxTime"
  shows "PredictLoop this Bullet Ign MaxTime Step s0 = None"
proof (cases "PredictLoop this Bullet Ign MaxTime Step s0")
  case None
  then show ?thesis .
next
  case (Some y)
  obtain r s' where y: "y = (r, s')" by (cases y)
  from PredictLoop_LoopHead [OF Some [unfolded y]] obtain n s where
    h: "LoopHead this Bullet Ign MaxTime Step s0 n s"
    and e: "if r then Time s < MaxTime \<and> LoopBody this Bullet Ign Step s = (True, s')
            else s' = s \<and> \<not> Time s < MaxTime" by blast
  have nb: "\<not> fst (LoopBody this Bullet Ign Step s)" by (rule LoopBody_never_hit [OF nh])
  have "Time s < MaxTime" using LoopHead_Time [OF h] t [of n] by simp
  with e nb show ?thesis by (cases r) simp_all
qed

subsection \<open>Evaluating the wall scenarios\<close>

lemma LoopBody_wall_pass:
  "\<not> (x \<le> w \<and> w \<le> x + vx * dt \<and> 0 < vx * dt) \<Longrightarrow>
   LoopBody (ScenarioBarrel (WallWorld w A)) ScenarioBullet Ign dt
     \<lparr>Time = t, CurrentLocation = FVector x y z, Velocity = FVector vx vy vz, Out = out, Events = ev\<rparr>
   = (False,
      \<lparr>Time = Float32 (t + dt),
       CurrentLocation = FVector (x + vx * dt) (y + vy * dt) (z + vz * dt),
       Velocity = FVector vx vy vz,
       Out = out\<lparr>Hit := False, HitResult := NoHitResult,
                   Trajectory := Trajectory out @ [FVector x y z]\<rparr>,
       Events = ev @ [UpdateVelocityCall (FVector x y z) (FVector vx vy vz) dt,
                      LineTraceCall (FVector x y z) (FVector (x + vx * dt) (y + vy * dt) (z + vz * dt))]\<rparr>)"
  by (auto simp add: LoopBody_def PredictTrace_def ScenarioBarrel_def WallWorld_def ScenarioBullet_def
        ZeroDragUpdate_def FVector_Lerp_def Let_def)

lemma LoopBody_wall_hit:
  "x \<le> w \<and> w \<le> x + vx * dt \<and> 0 < vx * dt \<Longrightarrow>
   LoopBody (ScenarioBarrel (WallWorld w A)) ScenarioBullet Ign dt
     \<lparr>Time = t, CurrentLocation = FVector x y z, Velocity = FVector vx vy vz, Out = out, Events = ev\<rparr>
   = (True,
      \<lparr>Time = t,
       CurrentLocation = FVector x y z,
       Velocity = FVector vx vy vz,
       Out = out\<lparr>Hit := True,
                   HitResult := \<lparr>hit_Location = FVector (x + vx * dt * ((w - x) / (vx * dt)))
                                                       (y + vy * dt * ((w - x) / (vx * dt)))
                                                       (z + vz * dt * ((w - x) / (vx * dt))),
                                 hit_Time = (w - x) / (vx * dt), hit_GetActor = Some A\<rparr>,
                   Trajectory := Trajectory out @ [FVector (x + vx * dt * ((w - x) / (vx * dt)))
                                                       (y + vy * dt * ((w - x) / (vx * dt)))
                                                       (z + vz * dt * ((w - x) / (vx * dt)))],
                   HitTime := Float32 (t + Float32 ((w - x) / (vx * dt) * dt)),
                   HitActor := Some A,
                   HitLocation := FVector (x + vx * dt * ((w - x) / (vx * dt)))
                                                       (y + vy * dt * ((w - x) / (vx * dt)))
                                                       (z + vz * dt * ((w - x) / (vx * dt)))\<rparr>,
       Events = ev @ [UpdateVelocityCall (FVector x y z) (FVector vx vy vz) dt,
                      LineTraceCall (FVector x y z) (FVector (x + vx * dt) (y + vy * dt) (z + vz * dt))]\<rparr>)"
  by (simp add: LoopBody_def PredictTrace_def ScenarioBarrel_def WallWorld_def ScenarioBullet_def
        ZeroDragUpdate_def FVector_Lerp_def Let_def)

lemma PredictLoop_wall_pass:
  "t < MaxTime \<Longrightarrow> \<not> (x \<le> w \<and> w \<le> x + vx * dt \<and> 0 < vx * dt) \<Longrightarrow>
   PredictLoop (ScenarioBarrel (WallWorld w A)) ScenarioBullet Ign MaxTime dt
     \<lparr>Time = t, CurrentLocation = FVector x y z, Velocity = FVector vx vy vz, Out = out, Events = ev\<rparr>
   = PredictLoop (ScenarioBarrel (WallWorld w A)) ScenarioBullet Ign MaxTime dt
      \<lparr>Time = Float32 (t + dt),
       CurrentLocation = FVector (x + vx * dt) (y + vy * dt) (z + vz * dt),
       Velocity = FVector vx vy vz,
       Out = out\<lparr>Hit := False, HitResult := NoHitResult,
                   Trajectory := Trajectory out @ [FVector x y z]\<rparr>,
       Events = ev @ [UpdateVelocityCall (FVector x y z) (FVector vx vy vz) dt,
                      LineTraceCall (FVector x y z) (FVector (x + vx * dt) (y + vy * dt) (z + vz * dt))]\<rparr>"
  by (rule PredictLoop_pass [OF _ LoopBody_wall_pass]) simp_all

lemma PredictLoop_wall_hit:
  "t < MaxTime \<Longrightarrow> x \<le> w \<and> w \<le> x + vx * dt \<and> 0 < vx * dt \<Longrightarrow>
   PredictLoop (ScenarioBarrel (WallWorld w A)) ScenarioBullet Ign MaxTime dt
     \<lparr>Time = t, CurrentLocation = FVector x y z, Velocity = FVector vx vy vz, Out = out, Events = ev\<rparr>
   = Some (LoopBody (ScenarioBarrel (WallWorld w A)) ScenarioBullet Ign dt
     \<lparr>Time = t, CurrentLocation = FVector x y z, Velocity = FVector vx vy vz, Out = out, Events = ev\<rparr>)"
  by (simp add: PredictLoop_return [OF _ LoopBody_wall_hit] LoopBody_wall_hit)

subsection \<open>Results of the whole function\<close>

lemma InitialState_fields:
  "Time (InitialState this out Bullet Start Aim) = 0"
  "CurrentLocation (InitialState this out Bullet Start Aim) = Start"
  "Velocity (InitialState this out Bullet Start Aim) = InitialVelocity this Bullet Start Aim"
  "Trajectory (Out (InitialState this out Bullet Start Aim)) = []"
  "Events (InitialState this out Bullet Start Aim) = []"
  by (simp_all add: InitialState_def)

lemma AfterLoop_fields:
  "\<not> Hit (AfterLoop MaxTime s)"
  "HitTime (AfterLoop MaxTime s) = MaxTime"
  "HitLocation (AfterLoop MaxTime s) = CurrentLocation s"
  "HitActor (AfterLoop MaxTime s) = None"
  "Trajectory (AfterLoop MaxTime s) = Trajectory (Out s)"
  by (simp_all add: AfterLoop_def)

text \<open>Every result of a call with a valid class comes from a loop head: the head at which
  the body returned (a hit), or the head at which the test of the loop failed (a miss).\<close>

lemma PredictHitFromLocation_result:
  assumes v: "IsValidLowLevel C"
    and r: "PredictHitFromLocation this out C Start Aim Ign MaxTime Step = Some (out', ev)"
  shows "\<exists>n s. LoopHead this (GetDefaultObject C) Ign MaxTime Step
                 (InitialState this out (GetDefaultObject C) Start Aim) n s \<and>
           (if Hit out'
            then Time s < MaxTime \<and>
                 (\<exists>s'. LoopBody this (GetDefaultObject C) Ign Step s = (True, s') \<and>
                       out' = Out s' \<and> ev = Events s')
            else \<not> Time s < MaxTime \<and> out' = AfterLoop MaxTime s \<and> ev = Events s)"
proof -
  let ?B = "GetDefaultObject C"
  let ?s0 = "InitialState this out ?B Start Aim"
  from v r obtain ret s1 where
    l: "PredictLoop this ?B Ign MaxTime Step ?s0 = Some (ret, s1)"
    and o: "(out', ev) = (if ret then (Out s1, Events s1) else (AfterLoop MaxTime s1, Events s1))"
    by (auto simp: PredictHitFromLocation_def Let_def split: option.splits if_splits)
  from PredictLoop_LoopHead [OF l] obtain n s where
    h: "LoopHead this ?B Ign MaxTime Step ?s0 n s"
    and e: "if ret then Time s < MaxTime \<and> LoopBody this ?B Ign Step s = (True, s1)
            else s1 = s \<and> \<not> Time s < MaxTime" by blast
  show ?thesis
  proof (cases ret)
    case True
    with e have t: "Time s < MaxTime" and b: "LoopBody this ?B Ign Step s = (True, s1)" by simp_all
    from True o have oo: "out' = Out s1" "ev = Events s1" by simp_all
    from LoopBody_return(6) [OF b] oo have "Hit out'" by simp
    with h t b oo show ?thesis by auto
  next
    case False
    with e have t: "\<not> Time s < MaxTime" and "s1 = s" by simp_all
    with False o have oo: "out' = AfterLoop MaxTime s" "ev = Events s" by simp_all
    then have "\<not> Hit out'" by (simp add: AfterLoop_fields)
    with h t oo show ?thesis by auto
  qed
qed

subsection \<open>Counts and times at the two exits of the loop\<close>

lemma hit_pass_facts:
  assumes h: "LoopHead this Bullet Ign MaxTime Step s0 n s"
    and z: "Time s0 = 0" "Trajectory (Out s0) = []" "Events s0 = []"
    and t: "Time s < MaxTime"
    and b: "LoopBody this Bullet Ign Step s = (True, s')"
  shows "HitTime (Out s') =
           Float32 (TimeAfter Step 0 n + Float32 (hit_Time (HitResult (Out s')) * Step))"
    and "length (Trajectory (Out s')) = Suc n"
    and "TraceCount (Events s') = Suc n"
    and "UpdateCount (Events s') = Suc n"
    and "TimeAfter Step 0 n < MaxTime"
    and "\<exists>a e. PredictTrace this (GetWorld this) Bullet a e Ign = (True, HitResult (Out s'))"
proof -
  have tm: "Time s = TimeAfter Step 0 n" using LoopHead_Time [OF h] z by simp
  show "HitTime (Out s') =
           Float32 (TimeAfter Step 0 n + Float32 (hit_Time (HitResult (Out s')) * Step))"
    using LoopBody_return(3) [OF b] tm by simp
  show "length (Trajectory (Out s')) = Suc n"
  proof -
    have "length (Trajectory (Out s)) = n" using LoopHead_Trajectory [OF h] z by simp
    with LoopBody_return(2) [OF b] show ?thesis by simp
  qed
  show "TraceCount (Events s') = Suc n"
    using LoopBody_return(7) [OF b] LoopHead_TraceCount [OF h] z by (simp add: TraceCount_append)
  show "UpdateCount (Events s') = Suc n"
    using LoopBody_return(7) [OF b] LoopHead_UpdateCount [OF h] z by (simp add: UpdateCount_append)
  show "TimeAfter Step 0 n < MaxTime" using t tm by simp
  show "\<exists>a e. PredictTrace this (GetWorld this) Bullet a e Ign = (True, HitResult (Out s'))"
    using LoopBody_return(8) [OF b, symmetric] by blast
qed

lemma miss_exit_facts:
  assumes h: "LoopHead this Bullet Ign MaxTime Step s0 n s"
    and z: "Time s0 = 0" "Trajectory (Out s0) = []" "Events s0 = []"
  shows "length (Trajectory (Out s)) = n"
    and "TraceCount (Events s) = n"
    and "UpdateCount (Events s) = n"
    and "Time s = TimeAfter Step 0 n"
    and "\<forall>k<n. TimeAfter Step 0 k < MaxTime"
proof -
  show "length (Trajectory (Out s)) = n" using LoopHead_Trajectory [OF h] z by simp
  show "TraceCount (Events s) = n" using LoopHead_TraceCount [OF h] z by simp
  show "UpdateCount (Events s) = n" using LoopHead_UpdateCount [OF h] z by simp
  show "Time s = TimeAfter Step 0 n" using LoopHead_Time [OF h] z by simp
  show "\<forall>k<n. TimeAfter Step 0 k < MaxTime" using LoopHead_earlier [OF h] z by simp
qed

lemma LoopBody_Time_mono:
  assumes "0 \<le> Step" and "0 \<le> Time s" and "Float32 (Time s) = Time s"
    and "LoopBody this Bullet Ign Step s = (h, s')"
  shows "Time s \<le> Time s'"
proof (cases h)
  case True
  with assms LoopBody_return(1) [of this Bullet Ign Step s s'] show ?thesis by simp
next
  case False
  with assms LoopBody_fall_through(1) [of this Bullet Ign Step s s']
  have "Time s' = Float32 (Time s + Step)" by simp
  moreover have "Float32 (Time s) \<le> Float32 (Time s + Step)"
    using assms(1,2) by (intro Float32_mono) simp_all
  ultimately show ?thesis using assms(3) by simp
qed

lemma LoopBody_counts:
  assumes "LoopBody this Bullet Ign Step s = (h, s')"
  shows "length (Trajectory (Out s')) = Suc (length (Trajectory (Out s)))"
    and "TraceCount (Events s') = Suc (TraceCount (Events s))"
    and "UpdateCount (Events s') = Suc (UpdateCount (Events s))"
proof -
  show "length (Trajectory (Out s')) = Suc (length (Trajectory (Out s)))"
    using assms LoopBody_return(2) [of this Bullet Ign Step s s']
      LoopBody_fall_through(2) [of this Bullet Ign Step s s'] by (cases h) simp_all
  show "TraceCount (Events s') = Suc (TraceCount (Events s))"
    using assms LoopBody_return(7) [of this Bullet Ign Step s s']
      LoopBody_fall_through(4) [of this Bullet Ign Step s s']
    by (cases h) (simp_all add: TraceCount_append)
  show "UpdateCount (Events s') = Suc (UpdateCount (Events s))"
    using assms LoopBody_return(7) [of this Bullet Ign Step s s']
      LoopBody_fall_through(4) [of this Bullet Ign Step s s']
    by (cases h) (simp_all add: UpdateCount_append)
qed

subsection \<open>Invariants of a run with a positive step\<close>

lemma run_bounds:
  assumes v: "IsValidLowLevel C"
    and r: "PredictHitFromLocation this out C Start Aim Ign MaxTime Step = Some (out', ev)"
  shows "length (Trajectory out') = TraceCount ev \<and>
         (\<forall>k<length (Trajectory out'). TimeAfter Step 0 k < MaxTime) \<and>
         (if Hit out' then 0 < length (Trajectory out')
          else \<not> TimeAfter Step 0 (length (Trajectory out')) < MaxTime)"
proof -
  let ?B = "GetDefaultObject C"
  let ?s0 = "InitialState this out ?B Start Aim"
  from PredictHitFromLocation_result [OF v r] obtain n s where
    h: "LoopHead this ?B Ign MaxTime Step ?s0 n s"
    and e: "if Hit out'
            then Time s < MaxTime \<and>
                 (\<exists>s'. LoopBody this ?B Ign Step s = (True, s') \<and> out' = Out s' \<and> ev = Events s')
            else \<not> Time s < MaxTime \<and> out' = AfterLoop MaxTime s \<and> ev = Events s" by blast
  note m = miss_exit_facts [OF h InitialState_fields(1,4,5)]
  show ?thesis
  proof (cases "Hit out'")
    case True
    with e obtain s' where t: "Time s < MaxTime"
      and b: "LoopBody this ?B Ign Step s = (True, s')" and o: "out' = Out s'" "ev = Events s'"
      by auto
    note f = hit_pass_facts [OF h InitialState_fields(1,4,5) t b]
    have "TimeAfter Step 0 k < MaxTime" if "k < Suc n" for k
    proof (cases "k < n")
      case True
      with m(5) show ?thesis by simp
    next
      case False
      with that have "k = n" by simp
      with f(5) show ?thesis by simp
    qed
    with f(2,3) o True show ?thesis by simp
  next
    case False
    with e have t: "\<not> Time s < MaxTime" and o: "out' = AfterLoop MaxTime s" "ev = Events s"
      by simp_all
    have l: "length (Trajectory out') = n" "TraceCount ev = n"
      using m(1,2) o by (simp_all add: AfterLoop_fields)
    from t m(4) have "\<not> TimeAfter Step 0 n < MaxTime" by simp
    with l m(5) False show ?thesis by simp
  qed
qed

lemma head_invariant:
  assumes p: "0 < Step"
    and h: "LoopHead this Bullet Ign MaxTime Step (InitialState this out Bullet Start Aim) n s"
  shows "0 \<le> Time s \<and> Time s = TimeAfter Step 0 n \<and>
         length (Trajectory (Out s)) = n \<and> TraceCount (Events s) = n \<and>
         (\<forall>k<n. TimeAfter Step 0 k < MaxTime) \<and>
         (\<forall>h s'. Time s < MaxTime \<and> LoopBody this Bullet Ign Step s = (h, s') \<longrightarrow>
            Time s \<le> Time s' \<and> length (Trajectory (Out s')) = Suc n \<and>
            TraceCount (Events s') = Suc n)"
proof -
  note m = miss_exit_facts [OF h InitialState_fields(1,4,5)]
  have s: "0 \<le> Step" using p by simp
  have 0: "0 \<le> Time s" using m(4) TimeAfter_nonneg [OF s, of n] by simp
  have rp: "Float32 (Time s) = Time s" using m(4) TimeAfter_representable [OF s, of n] by simp
  have st: "Time s \<le> Time s' \<and> length (Trajectory (Out s')) = Suc n \<and>
            TraceCount (Events s') = Suc n"
    if "Time s < MaxTime \<and> LoopBody this Bullet Ign Step s = (h, s')" for h s'
  proof -
    from that have b: "LoopBody this Bullet Ign Step s = (h, s')" by simp
    from LoopBody_Time_mono [OF s 0 rp b] LoopBody_counts(1,2) [OF b] m(1,2)
    show ?thesis by simp
  qed
  from 0 m st show ?thesis by blast
qed

subsection \<open>Times that are reached and times that are not\<close>

text \<open>Adding 1 to 16777216 gives 16777216 again in binary32: a time that advances by 1
  never passes it.\<close>

lemma TimeAfter_one_bounded: "TimeAfter 1 0 n \<le> 16777216"
proof (induction n)
  case 0
  show ?case by simp
next
  case (Suc n)
  have "0 \<le> TimeAfter 1 0 n" by (rule TimeAfter_nonneg) simp
  then have "Float32 (TimeAfter 1 0 n + 1) \<le> Float32 (16777216 + 1)"
    using Suc by (intro Float32_mono) simp_all
  also have "Float32 (16777216 + 1) = 16777216" by (simp add: Float32_eval)
  finally show ?case by simp
qed

subsection \<open>One pass of the loop\<close>

lemma LoopBody_trapezoid:
  assumes b: "LoopBody this Bullet Ign Step s = (h, s')"
  shows "Velocity s' = UpdateVelocity Bullet (GetWorld this) (CurrentLocation s) (Velocity s) Step \<and>
         Events s' = Events s @
           [UpdateVelocityCall (CurrentLocation s) (Velocity s) Step,
            LineTraceCall (CurrentLocation s)
              (FVector_plus (CurrentLocation s)
                 (FVector_scale (Average (Velocity s) (Velocity s')) Step))] \<and>
         CurrentLocation s' =
           (if h then CurrentLocation s
            else FVector_plus (CurrentLocation s)
                   (FVector_scale (Average (Velocity s) (Velocity s')) Step))"
  using b
  by (auto simp: LoopBody_def Let_def FVector_Lerp_half split: prod.splits if_splits)

subsection \<open>The initial velocity\<close>



subsection \<open>Independence of the values the caller passes in\<close>

lemma SameRun_sym: "SameRun s1 s2 \<Longrightarrow> SameRun s2 s1"
  by (simp add: SameRun_def)

lemma LoopBody_SameRun:
  assumes "SameRun s1 s2"
  shows "fst (LoopBody this Bullet Ign Step s1) = fst (LoopBody this Bullet Ign Step s2)"
    and "SameRun (snd (LoopBody this Bullet Ign Step s1)) (snd (LoopBody this Bullet Ign Step s2))"
    and "fst (LoopBody this Bullet Ign Step s1) \<Longrightarrow>
         Outcome (Out (snd (LoopBody this Bullet Ign Step s1))) =
         Outcome (Out (snd (LoopBody this Bullet Ign Step s2)))"
  using assms
  by (auto simp: SameRun_def LoopBody_def Let_def Outcome_def split: prod.splits)

lemma PredictLoop_SameRun_aux:
  assumes "PredictLoop this Bullet Ign MaxTime Step s1 = Some y"
  shows "\<forall>s2. SameRun s1 s2 \<longrightarrow>
           (\<exists>s2'. PredictLoop this Bullet Ign MaxTime Step s2 = Some (fst y, s2') \<and>
                  SameRun (snd y) s2' \<and>
                  (fst y \<longrightarrow> Outcome (Out (snd y)) = Outcome (Out s2')))"
proof (rule PredictLoop.raw_induct [where P = "\<lambda>this Bullet Ign MaxTime Step s1 y.
    \<forall>s2. SameRun s1 s2 \<longrightarrow>
           (\<exists>s2'. PredictLoop this Bullet Ign MaxTime Step s2 = Some (fst y, s2') \<and>
                  SameRun (snd y) s2' \<and>
                  (fst y \<longrightarrow> Outcome (Out (snd y)) = Outcome (Out s2')))", OF _ assms])
  fix f :: "UEBBarrel \<Rightarrow> AEBBullet \<Rightarrow> AActor list \<Rightarrow> real \<Rightarrow> real \<Rightarrow> predict_state
             \<Rightarrow> (bool \<times> predict_state) option"
    and this Bullet Ign MaxTime Step s1 y
  assume IH: "\<And>this Bullet Ign MaxTime Step s1 y. f this Bullet Ign MaxTime Step s1 = Some y \<Longrightarrow>
    \<forall>s2. SameRun s1 s2 \<longrightarrow>
           (\<exists>s2'. PredictLoop this Bullet Ign MaxTime Step s2 = Some (fst y, s2') \<and>
                  SameRun (snd y) s2' \<and>
                  (fst y \<longrightarrow> Outcome (Out (snd y)) = Outcome (Out s2')))"
  assume eq: "(if Time s1 < MaxTime
      then let (returned, s') = LoopBody this Bullet Ign Step s1
           in if returned then Some (True, s')
              else f this Bullet Ign MaxTime Step s'
      else Some (False, s1)) = Some y"
  show "\<forall>s2. SameRun s1 s2 \<longrightarrow>
           (\<exists>s2'. PredictLoop this Bullet Ign MaxTime Step s2 = Some (fst y, s2') \<and>
                  SameRun (snd y) s2' \<and>
                  (fst y \<longrightarrow> Outcome (Out (snd y)) = Outcome (Out s2')))"
  proof (intro allI impI)
    fix s2
    assume R: "SameRun s1 s2"
    then have T: "Time s2 = Time s1" by (simp add: SameRun_def)
    show "\<exists>s2'. PredictLoop this Bullet Ign MaxTime Step s2 = Some (fst y, s2') \<and>
                  SameRun (snd y) s2' \<and>
                  (fst y \<longrightarrow> Outcome (Out (snd y)) = Outcome (Out s2'))"
    proof (cases "Time s1 < MaxTime")
      case False
      with eq have y: "y = (False, s1)" by simp
      from False T have "PredictLoop this Bullet Ign MaxTime Step s2 = Some (False, s2)"
        by (simp add: PredictLoop_exit)
      with y R show ?thesis by simp
    next
      case True
      obtain h t1 where b1: "LoopBody this Bullet Ign Step s1 = (h, t1)"
        by (cases "LoopBody this Bullet Ign Step s1")
      obtain h2 t2 where b2: "LoopBody this Bullet Ign Step s2 = (h2, t2)"
        by (cases "LoopBody this Bullet Ign Step s2")
      from LoopBody_SameRun(1) [OF R, of this Bullet Ign Step] b1 b2 have hh: "h2 = h" by simp
      from LoopBody_SameRun(2) [OF R, of this Bullet Ign Step] b1 b2 have R': "SameRun t1 t2" by simp
      from True T have T2: "Time s2 < MaxTime" by simp
      show ?thesis
      proof (cases h)
        case True
        with eq b1 \<open>Time s1 < MaxTime\<close> have y: "y = (True, t1)" by simp
        from True hh b2 have "LoopBody this Bullet Ign Step s2 = (True, t2)" by simp
        from PredictLoop_return [OF T2 this]
        have p: "PredictLoop this Bullet Ign MaxTime Step s2 = Some (True, t2)" .
        from LoopBody_SameRun(3) [OF R, of this Bullet Ign Step] b1 b2 True
        have "Outcome (Out t1) = Outcome (Out t2)" by simp
        with y p R' show ?thesis by simp
      next
        case False
        with eq b1 True have "f this Bullet Ign MaxTime Step t1 = Some y" by simp
        from IH [OF this] R' obtain s2' where
          p: "PredictLoop this Bullet Ign MaxTime Step t2 = Some (fst y, s2')"
          and q: "SameRun (snd y) s2'" "fst y \<longrightarrow> Outcome (Out (snd y)) = Outcome (Out s2')"
          by blast
        from False hh b2 have "LoopBody this Bullet Ign Step s2 = (False, t2)" by simp
        from PredictLoop_pass [OF T2 this] p
        have "PredictLoop this Bullet Ign MaxTime Step s2 = Some (fst y, s2')" by simp
        with q show ?thesis by blast
      qed
    qed
  qed
qed

lemma PredictLoop_SameRun:
  assumes R: "SameRun s1 s2"
  shows "map_option (\<lambda>(returned, s). (if returned then Outcome (Out s) else Outcome (AfterLoop MaxTime s), Events s))
           (PredictLoop this Bullet Ign MaxTime Step s1) =
         map_option (\<lambda>(returned, s). (if returned then Outcome (Out s) else Outcome (AfterLoop MaxTime s), Events s))
           (PredictLoop this Bullet Ign MaxTime Step s2)"
proof -
  have one: "map_option (\<lambda>(returned, s). (if returned then Outcome (Out s) else Outcome (AfterLoop MaxTime s), Events s))
           (PredictLoop this Bullet Ign MaxTime Step s2) =
        Some (if fst y then Outcome (Out (snd y)) else Outcome (AfterLoop MaxTime (snd y)), Events (snd y))"
    if p: "PredictLoop this Bullet Ign MaxTime Step s1 = Some y" and R: "SameRun s1 s2" for s1 s2 y
  proof -
    from PredictLoop_SameRun_aux [OF p] R obtain s2' where
      q: "PredictLoop this Bullet Ign MaxTime Step s2 = Some (fst y, s2')"
      and r: "SameRun (snd y) s2'" and o: "fst y \<longrightarrow> Outcome (Out (snd y)) = Outcome (Out s2')"
      by blast
    from r have "Outcome (AfterLoop MaxTime (snd y)) = Outcome (AfterLoop MaxTime s2')"
      and "Events (snd y) = Events s2'"
      by (simp_all add: SameRun_def Outcome_def AfterLoop_def)
    with q o show ?thesis by simp
  qed
  show ?thesis
  proof (cases "PredictLoop this Bullet Ign MaxTime Step s1")
    case (Some y)
    have a: "map_option (\<lambda>(returned, s). (if returned then Outcome (Out s) else Outcome (AfterLoop MaxTime s), Events s))
           (PredictLoop this Bullet Ign MaxTime Step s1) =
        Some (if fst y then Outcome (Out (snd y)) else Outcome (AfterLoop MaxTime (snd y)), Events (snd y))"
      using Some by (simp add: case_prod_beta)
    show ?thesis unfolding a one [OF Some R] ..
  next
    case None
    show ?thesis
    proof (cases "PredictLoop this Bullet Ign MaxTime Step s2")
      case (Some y)
      from one [OF Some SameRun_sym [OF R]] None show ?thesis by simp
    next
      case n2: None
      with None show ?thesis by simp
    qed
  qed
qed

subsection \<open>Evaluating whole runs\<close>

lemmas run_eval = PredictHitFromLocation_def ScenarioClass_def InitialState_scenario
  PredictLoop_scenario_pass PredictLoop_wall_pass PredictLoop_wall_hit LoopBody_wall_hit
  PredictLoop_exit AfterLoop_def DefaultOutputs_def Float32_eval

text \<open>A wall at x = 55, maximal time 1, step 0.1.\<close>

lemma wall_55_run:
  "PredictHitFromLocation (ScenarioBarrel (WallWorld 55 7)) DefaultOutputs ScenarioClass
        (FVector 0 0 0) (FVector 1 0 0) [] 1 (1/10)
     = Some (\<lparr>Hit = True,
              HitResult = \<lparr>hit_Location = FVector 55 0 0, hit_Time = 1/2, hit_GetActor = Some 7\<rparr>,
              HitLocation = FVector 55 0 0, HitTime = 9227469/16777216, HitActor = Some 7,
              Trajectory = [FVector 0 0 0, FVector 10 0 0, FVector 20 0 0, FVector 30 0 0,
                            FVector 40 0 0, FVector 55 0 0]\<rparr>,
             [UpdateVelocityCall (FVector 0 0 0) (FVector 100 0 0) (1/10),
              LineTraceCall (FVector 0 0 0) (FVector 10 0 0),
              UpdateVelocityCall (FVector 10 0 0) (FVector 100 0 0) (1/10),
              LineTraceCall (FVector 10 0 0) (FVector 20 0 0),
              UpdateVelocityCall (FVector 20 0 0) (FVector 100 0 0) (1/10),
              LineTraceCall (FVector 20 0 0) (FVector 30 0 0),
              UpdateVelocityCall (FVector 30 0 0) (FVector 100 0 0) (1/10),
              LineTraceCall (FVector 30 0 0) (FVector 40 0 0),
              UpdateVelocityCall (FVector 40 0 0) (FVector 100 0 0) (1/10),
              LineTraceCall (FVector 40 0 0) (FVector 50 0 0),
              UpdateVelocityCall (FVector 50 0 0) (FVector 100 0 0) (1/10),
              LineTraceCall (FVector 50 0 0) (FVector 60 0 0)])"
  by (simp add: run_eval)

text \<open>The same wall with the step 0.125, which is a binary32 value.\<close>

lemma wall_55_eighth_run:
  "PredictHitFromLocation (ScenarioBarrel (WallWorld 55 7)) DefaultOutputs ScenarioClass
        (FVector 0 0 0) (FVector 1 0 0) [] 1 (1/8)
     = Some (\<lparr>Hit = True,
              HitResult = \<lparr>hit_Location = FVector 55 0 0, hit_Time = 2/5, hit_GetActor = Some 7\<rparr>,
              HitLocation = FVector 55 0 0, HitTime = 9227469/16777216, HitActor = Some 7,
              Trajectory = [FVector 0 0 0, FVector (25/2) 0 0, FVector 25 0 0, FVector (75/2) 0 0,
                            FVector 55 0 0]\<rparr>,
             [UpdateVelocityCall (FVector 0 0 0) (FVector 100 0 0) (1/8),
              LineTraceCall (FVector 0 0 0) (FVector (25/2) 0 0),
              UpdateVelocityCall (FVector (25/2) 0 0) (FVector 100 0 0) (1/8),
              LineTraceCall (FVector (25/2) 0 0) (FVector 25 0 0),
              UpdateVelocityCall (FVector 25 0 0) (FVector 100 0 0) (1/8),
              LineTraceCall (FVector 25 0 0) (FVector (75/2) 0 0),
              UpdateVelocityCall (FVector (75/2) 0 0) (FVector 100 0 0) (1/8),
              LineTraceCall (FVector (75/2) 0 0) (FVector 50 0 0),
              UpdateVelocityCall (FVector 50 0 0) (FVector 100 0 0) (1/8),
              LineTraceCall (FVector 50 0 0) (FVector (125/2) 0 0)])"
  by (simp add: run_eval)

text \<open>No obstacle and a time that cannot be reached: maximal time 20000000, step 1.\<close>

lemma unreachable_MaxTime_run:
  "PredictHitFromLocation (ScenarioBarrel EmptyWorld) DefaultOutputs ScenarioClass
        (FVector 0 0 0) (FVector 1 0 0) [] 20000000 1 = None"
proof -
  have "TimeAfter 1 0 k < 20000000" for k
    using TimeAfter_one_bounded [of k] by simp
  then have "PredictLoop (ScenarioBarrel EmptyWorld) ScenarioBullet [] 20000000 1
          (InitialState (ScenarioBarrel EmptyWorld) DefaultOutputs ScenarioBullet
             (FVector 0 0 0) (FVector 1 0 0)) = None"
    by (intro PredictLoop_diverges) (simp_all add: ScenarioBarrel_def EmptyWorld_def InitialState_def)
  then show ?thesis
    by (simp add: PredictHitFromLocation_def ScenarioClass_def)
qed

section \<open>The claims\<close>

text \<open>C2, as the code has it. A call with an invalid bullet class logs the warning and
  returns: the only engine call recorded is the warning (no velocity update, no line
  trace), no sample is appended, and every output is left as the caller passed it in.
  Nothing is written, so the outputs show no hit and an empty trajectory only when the
  caller's values did.\<close>

theorem invalid_class_fails_fast:
  "\<not> IsValidLowLevel BulletClass \<Longrightarrow>
   PredictHitFromLocation this out BulletClass StartLocation AimDirection IgnoredActors MaxTime Step
     = Some (out, [LogWarning ''PredictHit - invalid bullet class''])"
  by (simp add: PredictHitFromLocation_def)

theorem invalid_class_fails_fast_witness:
  "\<not> IsValidLowLevel InvalidClass \<and>
   PredictHitFromLocation (ScenarioBarrel EmptyWorld) DefaultOutputs InvalidClass
       (FVector 0 0 0) (FVector 1 0 0) [] 10 (1/10)
     = Some (DefaultOutputs, [LogWarning ''PredictHit - invalid bullet class'']) \<and>
   \<not> Hit DefaultOutputs \<and> Trajectory DefaultOutputs = []"
proof -
  have h: "\<not> IsValidLowLevel InvalidClass" by (simp add: InvalidClass_def)
  show ?thesis
    using h invalid_class_fails_fast [OF h, of "ScenarioBarrel EmptyWorld" DefaultOutputs
        "FVector 0 0 0" "FVector 1 0 0" "[]" 10 "1/10"]
    by (simp add: DefaultOutputs_def)
qed

text \<open>C2 as stated is false: a caller whose variables hold a hit and one sample from an
  earlier call reads them back after a call with an invalid class.\<close>

theorem invalid_class_keeps_stale_outputs:
  "PredictHitFromLocation (ScenarioBarrel EmptyWorld)
       (DefaultOutputs\<lparr>Hit := True, Trajectory := [FVector 1 1 1]\<rparr>) InvalidClass
       (FVector 0 0 0) (FVector 1 0 0) [] 10 (1/10)
     = Some (\<lparr>Hit = True, HitResult = NoHitResult, HitLocation = ZeroVector, HitTime = 0,
              HitActor = None, Trajectory = [FVector 1 1 1]\<rparr>,
             [LogWarning ''PredictHit - invalid bullet class''])"
  by (simp add: PredictHitFromLocation_def InvalidClass_def DefaultOutputs_def)


text \<open>C7. With a valid bullet class and \<open>MaxTime = 0\<close> the call returns at once, whatever
  the step: a miss at the start location and time 0, no actor, an empty trajectory, and no
  engine call at all (no velocity update, no line trace).\<close>

theorem zero_MaxTime_immediate_miss:
  "IsValidLowLevel BulletClass \<Longrightarrow>
   PredictHitFromLocation this out BulletClass StartLocation AimDirection IgnoredActors 0 Step
     = Some (out\<lparr>Hit := False, HitLocation := StartLocation, HitTime := 0, HitActor := None,
                   Trajectory := []\<rparr>, [])"
  by (simp add: PredictHitFromLocation_def PredictLoop_exit InitialState_def AfterLoop_def)

theorem zero_MaxTime_immediate_miss_witness:
  "IsValidLowLevel ScenarioClass \<and>
   PredictHitFromLocation (ScenarioBarrel (WallWorld 0 7)) DefaultOutputs ScenarioClass
       (FVector 5 6 7) (FVector 1 0 0) [] 0 (1/10)
     = Some (\<lparr>Hit = False, HitResult = NoHitResult, HitLocation = FVector 5 6 7, HitTime = 0,
              HitActor = None, Trajectory = []\<rparr>, [])"
proof -
  have h: "IsValidLowLevel ScenarioClass" by (simp add: ScenarioClass_def)
  show ?thesis
    using h zero_MaxTime_immediate_miss [OF h, of "ScenarioBarrel (WallWorld 0 7)" DefaultOutputs
        "FVector 5 6 7" "FVector 1 0 0" "[]" "1/10"]
    by (simp add: DefaultOutputs_def)
qed

text \<open>C1. A step that is not positive does not make the call return at once. At the
  input below (a valid class, step 0, maximal time 1, a world without obstacles) the loop
  is entered, the time never advances, and the call never returns.\<close>

theorem zero_Step_never_returns:
  "PredictHitFromLocation (ScenarioBarrel EmptyWorld) DefaultOutputs ScenarioClass
     (FVector 0 0 0) (FVector 1 0 0) [] 1 0 = None"
proof -
  have "PredictLoop (ScenarioBarrel EmptyWorld) ScenarioBullet [] 1 0
          (InitialState (ScenarioBarrel EmptyWorld) DefaultOutputs ScenarioBullet
             (FVector 0 0 0) (FVector 1 0 0)) = None"
    by (rule PredictLoop_diverges)
       (simp_all add: ScenarioBarrel_def EmptyWorld_def InitialState_def TimeAfter_zero_Step)
  then show ?thesis
    by (simp add: PredictHitFromLocation_def ScenarioClass_def)
qed

text \<open>C4, as the code has it. With a valid class and a world whose line trace never
  reports a hit, the loop runs as long as the time, a binary32 value that grows by one
  rounded addition of the step per pass, is below \<open>MaxTime\<close>. When the time after \<open>n\<close>
  additions is the first that is not below \<open>MaxTime\<close>, the call returns a miss (no actor)
  whose trajectory has \<open>n\<close> samples, the positions before each of \<open>n\<close> trapezoidal steps;
  the reported location is the position after the last of these steps and the reported
  time is \<open>MaxTime\<close> itself. The number \<open>n\<close> is \<open>\<lceil>MaxTime / Step\<rceil>\<close> only up to the rounding
  of the additions.\<close>

theorem miss_sample_count:
  assumes v: "IsValidLowLevel C"
    and nh: "\<forall>a b c q. \<not> fst (LineTraceSingleByChannel (GetWorld this) a b c q)"
    and below: "\<forall>k<n. TimeAfter Step 0 k < MaxTime"
    and reached: "\<not> TimeAfter Step 0 n < MaxTime"
  shows "\<exists>out' ev.
           PredictHitFromLocation this out C Start Aim Ign MaxTime Step = Some (out', ev) \<and>
           \<not> Hit out' \<and>
           length (Trajectory out') = n \<and>
           Trajectory out' =
             map (\<lambda>i. fst (Integrate (UpdateVelocity (GetDefaultObject C) (GetWorld this)) Step i
                             (Start, InitialVelocity this (GetDefaultObject C) Start Aim)))
               [0..<n] \<and>
           HitLocation out' =
             fst (Integrate (UpdateVelocity (GetDefaultObject C) (GetWorld this)) Step n
                    (Start, InitialVelocity this (GetDefaultObject C) Start Aim)) \<and>
           HitTime out' = MaxTime \<and>
           HitActor out' = None"
proof -
  let ?B = "GetDefaultObject C"
  let ?s0 = "InitialState this out ?B Start Aim"
  let ?U = "UpdateVelocity ?B (GetWorld this)"
  from below have b: "\<forall>k<n. TimeAfter Step (Time ?s0) k < MaxTime"
    by (simp add: InitialState_fields)
  have "\<exists>s. LoopHead this ?B Ign MaxTime Step ?s0 n s \<and>
          PredictLoop this ?B Ign MaxTime Step ?s0 = PredictLoop this ?B Ign MaxTime Step s"
  proof (rule PredictLoop_never_hit_run)
    show "\<not> fst (LineTraceSingleByChannel (GetWorld this) a b c q)" for a b c q
      using nh by simp
    show "\<forall>k<n. TimeAfter Step (Time ?s0) k < MaxTime" by (rule b)
  qed
  then obtain s where
    h: "LoopHead this ?B Ign MaxTime Step ?s0 n s"
    and e: "PredictLoop this ?B Ign MaxTime Step ?s0 = PredictLoop this ?B Ign MaxTime Step s"
    by blast
  note m = miss_exit_facts [OF h InitialState_fields(1,4,5)]
  from reached m(4) have "\<not> Time s < MaxTime" by simp
  from PredictLoop_exit [OF this] e
  have l: "PredictLoop this ?B Ign MaxTime Step ?s0 = Some (False, s)" by simp
  have r: "PredictHitFromLocation this out C Start Aim Ign MaxTime Step
             = Some (AfterLoop MaxTime s, Events s)"
    using v l by (simp add: PredictHitFromLocation_def Let_def)
  have tr: "Trajectory (Out s) = map (\<lambda>i. fst (Integrate ?U Step i
                        (Start, InitialVelocity this ?B Start Aim))) [0..<n]"
    using LoopHead_Trajectory [OF h] by (simp add: InitialState_fields)
  have "(CurrentLocation s, Velocity s) = Integrate ?U Step n (Start, InitialVelocity this ?B Start Aim)"
    using LoopHead_Integrate [OF h] by (simp add: InitialState_fields)
  then have loc: "CurrentLocation s = fst (Integrate ?U Step n (Start, InitialVelocity this ?B Start Aim))"
    by (metis fst_conv)
  show ?thesis
    apply (rule exI [of _ "AfterLoop MaxTime s"], rule exI [of _ "Events s"])
    using r m(1) tr loc by (simp add: AfterLoop_fields)
qed

theorem miss_sample_count_witness:
  "IsValidLowLevel ScenarioClass \<and>
   (\<forall>a b c q. \<not> fst (LineTraceSingleByChannel (GetWorld (ScenarioBarrel EmptyWorld)) a b c q)) \<and>
   TimeAfter (1/10) 0 0 < 1/4 \<and> TimeAfter (1/10) 0 1 < 1/4 \<and> TimeAfter (1/10) 0 2 < 1/4 \<and>
   \<not> TimeAfter (1/10) 0 3 < 1/4 \<and>
   (\<exists>out' ev.
      PredictHitFromLocation (ScenarioBarrel EmptyWorld) DefaultOutputs ScenarioClass
        (FVector 0 0 0) (FVector 1 0 0) [] (1/4) (1/10) = Some (out', ev) \<and>
      \<not> Hit out' \<and> length (Trajectory out') = 3 \<and> HitTime out' = 1/4 \<and> HitActor out' = None)"
proof -
  have v: "IsValidLowLevel ScenarioClass" by (simp add: ScenarioClass_def)
  have nh: "\<forall>a b c q. \<not> fst (LineTraceSingleByChannel (GetWorld (ScenarioBarrel EmptyWorld)) a b c q)"
    by (simp add: ScenarioBarrel_def EmptyWorld_def)
  have t: "TimeAfter (1/10) 0 0 < 1/4" "TimeAfter (1/10) 0 1 < 1/4" "TimeAfter (1/10) 0 2 < 1/4"
    "\<not> TimeAfter (1/10) 0 3 < 1/4"
    by (simp_all add: eval_nat_numeral Float32_eval)
  have a: "\<forall>k<3. TimeAfter (1/10) 0 k < 1/4"
  proof (intro allI impI)
    fix k :: nat
    assume "k < 3"
    then have "k = 0 \<or> k = 1 \<or> k = 2" by auto
    with t show "TimeAfter (1/10) 0 k < 1/4" by auto
  qed
  from miss_sample_count [OF v nh a t(4), of DefaultOutputs "FVector 0 0 0" "FVector 1 0 0" "[]"]
  have "\<exists>out' ev.
      PredictHitFromLocation (ScenarioBarrel EmptyWorld) DefaultOutputs ScenarioClass
        (FVector 0 0 0) (FVector 1 0 0) [] (1/4) (1/10) = Some (out', ev) \<and>
      \<not> Hit out' \<and> length (Trajectory out') = 3 \<and> HitTime out' = 1/4 \<and> HitActor out' = None"
    by blast
  with v nh t show ?thesis by blast
qed

text \<open>C4 as stated is false. With \<open>MaxTime = 3\<close> and the binary32 step nearest to 0.1
  (13421773 / 134217728) the time after 30 additions is still below 3, so the miss has 31
  samples, while \<open>\<lceil>MaxTime / Step\<rceil>\<close> is 30. With \<open>MaxTime = 20000000\<close> and step 1 the time
  stops at 16777216 and the call does not return.\<close>

theorem miss_count_is_not_ceiling:
  "map_option (\<lambda>(out, ev). (Hit out, length (Trajectory out)))
     (PredictHitFromLocation (ScenarioBarrel EmptyWorld) DefaultOutputs ScenarioClass
        (FVector 0 0 0) (FVector 1 0 0) [] 3 (13421773/134217728))
     = Some (False, 31) \<and>
   \<lceil>3 / (13421773/134217728 :: real)\<rceil> = 30 \<and>
   PredictHitFromLocation (ScenarioBarrel EmptyWorld) DefaultOutputs ScenarioClass
        (FVector 0 0 0) (FVector 1 0 0) [] 20000000 1 = None"
proof -
  have "map_option (\<lambda>(out, ev). (Hit out, length (Trajectory out)))
     (PredictHitFromLocation (ScenarioBarrel EmptyWorld) DefaultOutputs ScenarioClass
        (FVector 0 0 0) (FVector 1 0 0) [] 3 (13421773/134217728))
     = Some (False, 31)"
    by (simp add: run_eval)
  moreover have "\<lceil>3 / (13421773/134217728 :: real)\<rceil> = 30" by simp
  ultimately show ?thesis using unreachable_MaxTime_run by simp
qed

text \<open>C3, as the code has it. When a call with a valid class reports a hit, the hit
  result is what the line trace of the hitting pass returned, and the hit time is the
  binary32 sum of the elapsed time and of the binary32 product of the fraction and the
  step. The elapsed time is the time after \<open>k\<close> rounded additions of the step, where \<open>k\<close>,
  the number of completed passes, is one less than the number of line traces made (and of
  samples in the trajectory); it is \<open>k * Step\<close> only up to rounding. The hitting pass
  started before \<open>MaxTime\<close> (the elapsed time is below it) but may end after it: for a
  positive binary32 step and a fraction in [0,1] the hit time is not negative and not
  above the time at which the next pass would have started, nor above the binary32 sum of
  \<open>MaxTime\<close> and the step; it can be above \<open>MaxTime\<close>.\<close>

theorem HitTime_formula:
  assumes v: "IsValidLowLevel C"
    and r: "PredictHitFromLocation this out C Start Aim Ign MaxTime Step = Some (out', ev)"
    and hit: "Hit out'"
  shows "HitTime out' =
           Float32 (TimeAfter Step 0 (TraceCount ev - 1) + Float32 (hit_Time (HitResult out') * Step)) \<and>
         length (Trajectory out') = TraceCount ev \<and> 0 < TraceCount ev \<and>
         (\<exists>a e. PredictTrace this (GetWorld this) (GetDefaultObject C) a e Ign = (True, HitResult out')) \<and>
         TimeAfter Step 0 (TraceCount ev - 1) < MaxTime \<and>
         (0 < Step \<and> Float32 Step = Step \<and>
          0 \<le> hit_Time (HitResult out') \<and> hit_Time (HitResult out') \<le> 1 \<longrightarrow>
            0 \<le> HitTime out' \<and> HitTime out' \<le> TimeAfter Step 0 (TraceCount ev) \<and>
            HitTime out' \<le> Float32 (MaxTime + Step))"
proof -
  let ?B = "GetDefaultObject C"
  let ?s0 = "InitialState this out ?B Start Aim"
  from PredictHitFromLocation_result [OF v r] hit obtain n s s' where
    h: "LoopHead this ?B Ign MaxTime Step ?s0 n s"
    and t: "Time s < MaxTime"
    and b: "LoopBody this ?B Ign Step s = (True, s')"
    and o: "out' = Out s'" "ev = Events s'" by auto
  note f = hit_pass_facts [OF h InitialState_fields(1,4,5) t b]
  have c: "TraceCount ev - 1 = n" "TraceCount ev = Suc n" using f(3) o by simp_all
  let ?T = "TimeAfter Step 0 n"
  let ?F = "hit_Time (HitResult out')"
  have 1: "HitTime out' = Float32 (?T + Float32 (?F * Step))"
    using f(1) o by simp
  have 2: "length (Trajectory out') = TraceCount ev" "0 < TraceCount ev"
    using f(2,3) o by simp_all
  have 3: "\<exists>a e. PredictTrace this (GetWorld this) ?B a e Ign = (True, HitResult out')"
    using f(6) o by simp
  have 4: "?T < MaxTime" by (rule f(5))
  have 5: "0 \<le> HitTime out' \<and> HitTime out' \<le> TimeAfter Step 0 (Suc n) \<and>
           HitTime out' \<le> Float32 (MaxTime + Step)"
    if a: "0 < Step \<and> Float32 Step = Step \<and> 0 \<le> ?F \<and> ?F \<le> 1"
  proof -
    from a have s: "0 \<le> Step" by simp
    have T: "0 \<le> ?T" by (rule TimeAfter_nonneg [OF s])
    from a have p: "0 \<le> ?F * Step" by simp
    from a have "?F * Step \<le> 1 * Step" by (intro mult_right_mono) simp_all
    then have "Float32 (?F * Step) \<le> Float32 Step" using p by (intro Float32_mono) simp_all
    with a have q: "Float32 (?F * Step) \<le> Step" by simp
    have q0: "0 \<le> Float32 (?F * Step)" by (rule Float32_nonneg [OF p])
    have lo: "0 \<le> HitTime out'" unfolding 1 using T q0 by (intro Float32_nonneg) simp
    have "Float32 (?T + Float32 (?F * Step)) \<le> Float32 (?T + Step)"
      using T q0 q by (intro Float32_mono) simp_all
    then have hi: "HitTime out' \<le> TimeAfter Step 0 (Suc n)" unfolding 1 by simp
    have "Float32 (?T + Step) \<le> Float32 (MaxTime + Step)"
      using T s 4 by (intro Float32_mono) simp_all
    with hi have "HitTime out' \<le> Float32 (MaxTime + Step)" by simp
    with lo hi show ?thesis by simp
  qed
  from 1 2 3 4 5 show ?thesis by (simp only: c(2) diff_Suc_1) blast
qed

theorem HitTime_formula_witness:
  "IsValidLowLevel ScenarioClass \<and>
   PredictHitFromLocation (ScenarioBarrel (WallWorld 55 7)) DefaultOutputs ScenarioClass
        (FVector 0 0 0) (FVector 1 0 0) [] 1 (1/8)
     = Some (\<lparr>Hit = True,
              HitResult = \<lparr>hit_Location = FVector 55 0 0, hit_Time = 2/5, hit_GetActor = Some 7\<rparr>,
              HitLocation = FVector 55 0 0, HitTime = 9227469/16777216, HitActor = Some 7,
              Trajectory = [FVector 0 0 0, FVector (25/2) 0 0, FVector 25 0 0, FVector (75/2) 0 0,
                            FVector 55 0 0]\<rparr>,
             [UpdateVelocityCall (FVector 0 0 0) (FVector 100 0 0) (1/8),
              LineTraceCall (FVector 0 0 0) (FVector (25/2) 0 0),
              UpdateVelocityCall (FVector (25/2) 0 0) (FVector 100 0 0) (1/8),
              LineTraceCall (FVector (25/2) 0 0) (FVector 25 0 0),
              UpdateVelocityCall (FVector 25 0 0) (FVector 100 0 0) (1/8),
              LineTraceCall (FVector 25 0 0) (FVector (75/2) 0 0),
              UpdateVelocityCall (FVector (75/2) 0 0) (FVector 100 0 0) (1/8),
              LineTraceCall (FVector (75/2) 0 0) (FVector 50 0 0),
              UpdateVelocityCall (FVector 50 0 0) (FVector 100 0 0) (1/8),
              LineTraceCall (FVector 50 0 0) (FVector (125/2) 0 0)]) \<and>
   (0::real) < 1/8 \<and> Float32 (1/8) = 1/8 \<and> (0::real) \<le> 2/5 \<and> (2/5::real) \<le> 1 \<and>
   (9227469/16777216 :: real) = Float32 (TimeAfter (1/8) 0 4 + Float32 (2/5 * (1/8))) \<and>
   TimeAfter (1/8) 0 4 < 1 \<and>
   (0::real) \<le> 9227469/16777216 \<and> (9227469/16777216 :: real) \<le> TimeAfter (1/8) 0 5 \<and>
   (9227469/16777216 :: real) \<le> Float32 (1 + 1/8)"
proof -
  have v: "IsValidLowLevel ScenarioClass" by (simp add: ScenarioClass_def)
  have s: "(0::real) < 1/8" "Float32 (1/8) = 1/8" "(0::real) \<le> 2/5" "(2/5::real) \<le> 1"
    by (simp_all add: Float32_eval)
  from HitTime_formula [OF v wall_55_eighth_run] v s wall_55_eighth_run show ?thesis
    by (simp add: eval_nat_numeral Float32_eval)
qed

text \<open>C3 as stated is false. With \<open>MaxTime = 0.25\<close>, the binary32 step nearest to 0.1
  (13421773 / 134217728) and a wall at x = 29, the third pass starts at the time
  13421773 / 67108864 (about 0.2) and hits the wall, two passes being completed: the hit
  time, 9730785 / 33554432 (about 0.29), is above \<open>MaxTime\<close>, and it is not the exact value of
  \<open>2 * Step + fraction * Step\<close>.\<close>

theorem HitTime_exceeds_MaxTime:
  "map_option (\<lambda>(out, ev). (Hit out, HitTime out, hit_Time (HitResult out), TraceCount ev))
     (PredictHitFromLocation (ScenarioBarrel (WallWorld 29 7)) DefaultOutputs ScenarioClass
        (FVector 0 0 0) (FVector 1 0 0) [] (1/4) (13421773/134217728))
     = Some (True, 9730785/33554432, 301989878/335544325, 3) \<and>
   \<not> (9730785/33554432 :: real) \<le> 1/4 \<and>
   (9730785/33554432 :: real) \<noteq>
     2 * (13421773/134217728) + 301989878/335544325 * (13421773/134217728)"
  by (simp add: run_eval)

text \<open>C8, as the code has it. With a valid class and a positive step, at every loop
  head reached after \<open>n\<close> passes the elapsed time is the time after \<open>n\<close> rounded additions
  of the step, it is not negative, every earlier head was below \<open>MaxTime\<close>, and the
  trajectory holds \<open>n\<close> samples, one for each line trace made; a pass started there (before
  \<open>MaxTime\<close>) does not decrease the time and adds one sample and one line trace. In a
  result the number of samples is the number of line traces; every pass made started
  below \<open>MaxTime\<close>, and on a miss the time after the last pass is not below \<open>MaxTime\<close>. That
  test on the rounded time is the only bound on the number of samples: it can exceed
  \<open>MaxTime / Step\<close> on a miss and \<open>MaxTime / Step + 1\<close> on a hit.\<close>

theorem elapsed_time_invariant:
  assumes p: "0 < Step" and v: "IsValidLowLevel C"
  shows
   "(\<forall>n s. LoopHead this (GetDefaultObject C) Ign MaxTime Step
              (InitialState this out (GetDefaultObject C) Start Aim) n s \<longrightarrow>
        0 \<le> Time s \<and> Time s = TimeAfter Step 0 n \<and>
        length (Trajectory (Out s)) = n \<and> TraceCount (Events s) = n \<and>
        (\<forall>k<n. TimeAfter Step 0 k < MaxTime) \<and>
        (\<forall>h s'. Time s < MaxTime \<and> LoopBody this (GetDefaultObject C) Ign Step s = (h, s') \<longrightarrow>
            Time s \<le> Time s' \<and> length (Trajectory (Out s')) = Suc n \<and>
            TraceCount (Events s') = Suc n)) \<and>
    (\<forall>out' ev. PredictHitFromLocation this out C Start Aim Ign MaxTime Step = Some (out', ev) \<longrightarrow>
        length (Trajectory out') = TraceCount ev \<and>
        (\<forall>k<length (Trajectory out'). TimeAfter Step 0 k < MaxTime) \<and>
        (if Hit out' then 0 < length (Trajectory out')
         else \<not> TimeAfter Step 0 (length (Trajectory out')) < MaxTime))"
proof (intro conjI)
  show "\<forall>n s. LoopHead this (GetDefaultObject C) Ign MaxTime Step
              (InitialState this out (GetDefaultObject C) Start Aim) n s \<longrightarrow>
        0 \<le> Time s \<and> Time s = TimeAfter Step 0 n \<and>
        length (Trajectory (Out s)) = n \<and> TraceCount (Events s) = n \<and>
        (\<forall>k<n. TimeAfter Step 0 k < MaxTime) \<and>
        (\<forall>h s'. Time s < MaxTime \<and> LoopBody this (GetDefaultObject C) Ign Step s = (h, s') \<longrightarrow>
            Time s \<le> Time s' \<and> length (Trajectory (Out s')) = Suc n \<and>
            TraceCount (Events s') = Suc n)"
    by (intro allI impI) (rule head_invariant [OF p])
  show "\<forall>out' ev. PredictHitFromLocation this out C Start Aim Ign MaxTime Step = Some (out', ev) \<longrightarrow>
        length (Trajectory out') = TraceCount ev \<and>
        (\<forall>k<length (Trajectory out'). TimeAfter Step 0 k < MaxTime) \<and>
        (if Hit out' then 0 < length (Trajectory out')
         else \<not> TimeAfter Step 0 (length (Trajectory out')) < MaxTime)"
    by (intro allI impI) (rule run_bounds [OF v])
qed

theorem elapsed_time_invariant_witness:
  "(0::real) < 1/10 \<and> IsValidLowLevel ScenarioClass \<and>
   LoopHead (ScenarioBarrel (WallWorld 55 7)) (GetDefaultObject ScenarioClass) [] 1 (1/10)
     (InitialState (ScenarioBarrel (WallWorld 55 7)) DefaultOutputs (GetDefaultObject ScenarioClass)
        (FVector 0 0 0) (FVector 1 0 0)) 0
     (InitialState (ScenarioBarrel (WallWorld 55 7)) DefaultOutputs (GetDefaultObject ScenarioClass)
        (FVector 0 0 0) (FVector 1 0 0)) \<and>
   (0::real) \<le> Time (InitialState (ScenarioBarrel (WallWorld 55 7)) DefaultOutputs
        (GetDefaultObject ScenarioClass) (FVector 0 0 0) (FVector 1 0 0)) \<and>
   (\<exists>out' ev. PredictHitFromLocation (ScenarioBarrel (WallWorld 55 7)) DefaultOutputs ScenarioClass
        (FVector 0 0 0) (FVector 1 0 0) [] 1 (1/10) = Some (out', ev) \<and> Hit out' \<and>
        length (Trajectory out') = 6 \<and> TraceCount ev = 6 \<and>
        (\<forall>k<6. TimeAfter (1/10) 0 k < 1))"
proof -
  have p: "(0::real) < 1/10" by simp
  have v: "IsValidLowLevel ScenarioClass" by (simp add: ScenarioClass_def)
  note t = elapsed_time_invariant [OF p v, of "ScenarioBarrel (WallWorld 55 7)" "[]" 1 DefaultOutputs
        "FVector 0 0 0" "FVector 1 0 0"]
  let ?s0 = "InitialState (ScenarioBarrel (WallWorld 55 7)) DefaultOutputs
        (GetDefaultObject ScenarioClass) (FVector 0 0 0) (FVector 1 0 0)"
  have h: "LoopHead (ScenarioBarrel (WallWorld 55 7)) (GetDefaultObject ScenarioClass) [] 1 (1/10)
     ?s0 0 ?s0" by (rule LoopHead.entry)
  with t have 1: "0 \<le> Time ?s0" by blast
  from t wall_55_run have 2: "\<forall>k<length [FVector 0 0 0, FVector 10 0 0, FVector 20 0 0,
       FVector 30 0 0, FVector 40 0 0, FVector 55 0 0]. TimeAfter (1/10) 0 k < 1"
    by simp
  have 3: "\<exists>out' ev. PredictHitFromLocation (ScenarioBarrel (WallWorld 55 7)) DefaultOutputs
        ScenarioClass (FVector 0 0 0) (FVector 1 0 0) [] 1 (1/10) = Some (out', ev) \<and> Hit out' \<and>
        length (Trajectory out') = 6 \<and> TraceCount ev = 6 \<and>
        (\<forall>k<6. TimeAfter (1/10) 0 k < 1)"
    using wall_55_run 2 by simp
  from p v h 1 3 show ?thesis by blast
qed

text \<open>C8 as stated is false. On a miss with \<open>MaxTime = 0.25\<close> and step 0.1 the loop makes
  three passes, and 3 is more than 0.25 / 0.1. On a hit with \<open>MaxTime = 3\<close>, the binary32
  step nearest to 0.1 (13421773 / 134217728) and a wall at x = 305, the wall is hit in the
  31st pass, and 31 is more than \<open>MaxTime / Step + 1\<close>.\<close>

theorem miss_count_exceeds_quotient:
  "PredictHitFromLocation (ScenarioBarrel EmptyWorld) DefaultOutputs ScenarioClass
        (FVector 0 0 0) (FVector 1 0 0) [] (1/4) (1/10)
     = Some (\<lparr>Hit = False, HitResult = NoHitResult,
              HitLocation = FVector 30 0 0, HitTime = 1/4, HitActor = None,
              Trajectory = [FVector 0 0 0, FVector 10 0 0, FVector 20 0 0]\<rparr>,
             [UpdateVelocityCall (FVector 0 0 0) (FVector 100 0 0) (1/10),
              LineTraceCall (FVector 0 0 0) (FVector 10 0 0),
              UpdateVelocityCall (FVector 10 0 0) (FVector 100 0 0) (1/10),
              LineTraceCall (FVector 10 0 0) (FVector 20 0 0),
              UpdateVelocityCall (FVector 20 0 0) (FVector 100 0 0) (1/10),
              LineTraceCall (FVector 20 0 0) (FVector 30 0 0)]) \<and>
   \<not> real (length [FVector 0 0 0, FVector 10 0 0, FVector 20 0 0]) \<le> (1/4) / (1/10) \<and>
   map_option (\<lambda>(out, ev). (Hit out, length (Trajectory out)))
     (PredictHitFromLocation (ScenarioBarrel (WallWorld 305 7)) DefaultOutputs ScenarioClass
        (FVector 0 0 0) (FVector 1 0 0) [] 3 (13421773/134217728))
     = Some (True, 31) \<and>
   \<not> (31::real) \<le> 3 / (13421773/134217728) + 1"
proof -
  have "PredictHitFromLocation (ScenarioBarrel EmptyWorld) DefaultOutputs ScenarioClass
        (FVector 0 0 0) (FVector 1 0 0) [] (1/4) (1/10)
     = Some (\<lparr>Hit = False, HitResult = NoHitResult,
              HitLocation = FVector 30 0 0, HitTime = 1/4, HitActor = None,
              Trajectory = [FVector 0 0 0, FVector 10 0 0, FVector 20 0 0]\<rparr>,
             [UpdateVelocityCall (FVector 0 0 0) (FVector 100 0 0) (1/10),
              LineTraceCall (FVector 0 0 0) (FVector 10 0 0),
              UpdateVelocityCall (FVector 10 0 0) (FVector 100 0 0) (1/10),
              LineTraceCall (FVector 10 0 0) (FVector 20 0 0),
              UpdateVelocityCall (FVector 20 0 0) (FVector 100 0 0) (1/10),
              LineTraceCall (FVector 20 0 0) (FVector 30 0 0)])"
    by (simp add: run_eval)
  moreover have "map_option (\<lambda>(out, ev). (Hit out, length (Trajectory out)))
     (PredictHitFromLocation (ScenarioBarrel (WallWorld 305 7)) DefaultOutputs ScenarioClass
        (FVector 0 0 0) (FVector 1 0 0) [] 3 (13421773/134217728))
     = Some (True, 31)"
    by (simp add: run_eval)
  ultimately show ?thesis by simp
qed

text \<open>C5. Every pass of the loop calls the bullet's velocity update with the current
  location, the current velocity and the step, and takes its result as the new velocity;
  the line trace of the pass runs from the current location to the current location plus
  the average of the old and the new velocity times the step, and a pass without a hit
  moves the current location to that same end (a pass with a hit leaves it). Hence at the
  loop head reached after \<open>n\<close> passes of a call the location and the velocity are those of
  \<open>n\<close> trapezoidal steps from the start.\<close>

theorem trapezoidal_displacement:
  "(LoopBody this Bullet Ign Step s = (h, s') \<longrightarrow>
      Velocity s' = UpdateVelocity Bullet (GetWorld this) (CurrentLocation s) (Velocity s) Step \<and>
      Events s' = Events s @
        [UpdateVelocityCall (CurrentLocation s) (Velocity s) Step,
         LineTraceCall (CurrentLocation s)
           (FVector_plus (CurrentLocation s)
              (FVector_scale (Average (Velocity s) (Velocity s')) Step))] \<and>
      CurrentLocation s' =
        (if h then CurrentLocation s
         else FVector_plus (CurrentLocation s)
                (FVector_scale (Average (Velocity s) (Velocity s')) Step))) \<and>
   (LoopHead this Bullet Ign MaxTime Step (InitialState this out Bullet Start Aim) n t \<longrightarrow>
      (CurrentLocation t, Velocity t) =
        Integrate (UpdateVelocity Bullet (GetWorld this)) Step n
          (Start, InitialVelocity this Bullet Start Aim))"
proof (intro conjI impI)
  assume b: "LoopBody this Bullet Ign Step s = (h, s')"
  from LoopBody_trapezoid [OF b]
  show "Velocity s' = UpdateVelocity Bullet (GetWorld this) (CurrentLocation s) (Velocity s) Step"
    and "Events s' = Events s @
        [UpdateVelocityCall (CurrentLocation s) (Velocity s) Step,
         LineTraceCall (CurrentLocation s)
           (FVector_plus (CurrentLocation s)
              (FVector_scale (Average (Velocity s) (Velocity s')) Step))]"
    and "CurrentLocation s' =
        (if h then CurrentLocation s
         else FVector_plus (CurrentLocation s)
                (FVector_scale (Average (Velocity s) (Velocity s')) Step))"
    by simp_all
next
  assume "LoopHead this Bullet Ign MaxTime Step (InitialState this out Bullet Start Aim) n t"
  from LoopHead_Integrate [OF this]
  show "(CurrentLocation t, Velocity t) =
        Integrate (UpdateVelocity Bullet (GetWorld this)) Step n
          (Start, InitialVelocity this Bullet Start Aim)"
    by (simp add: InitialState_fields)
qed

theorem trapezoidal_displacement_witness:
  "LoopBody (ScenarioBarrel EmptyWorld) ScenarioBullet [] (1/10)
      \<lparr>Time = 0, CurrentLocation = FVector 0 0 0, Velocity = FVector 100 0 0,
       Out = DefaultOutputs\<lparr>Trajectory := []\<rparr>, Events = []\<rparr>
    = (False,
       \<lparr>Time = 13421773/134217728, CurrentLocation = FVector 10 0 0, Velocity = FVector 100 0 0,
        Out = DefaultOutputs\<lparr>Trajectory := [FVector 0 0 0]\<rparr>,
        Events = [UpdateVelocityCall (FVector 0 0 0) (FVector 100 0 0) (1/10),
                  LineTraceCall (FVector 0 0 0) (FVector 10 0 0)]\<rparr>) \<and>
   LoopHead (ScenarioBarrel EmptyWorld) ScenarioBullet [] 1 (1/10)
     (InitialState (ScenarioBarrel EmptyWorld) DefaultOutputs ScenarioBullet
        (FVector 0 0 0) (FVector 1 0 0)) 1
     \<lparr>Time = 13421773/134217728, CurrentLocation = FVector 10 0 0, Velocity = FVector 100 0 0,
        Out = DefaultOutputs\<lparr>Trajectory := [FVector 0 0 0]\<rparr>,
        Events = [UpdateVelocityCall (FVector 0 0 0) (FVector 100 0 0) (1/10),
                  LineTraceCall (FVector 0 0 0) (FVector 10 0 0)]\<rparr> \<and>
   FVector 10 0 0 =
     FVector_plus (FVector 0 0 0)
       (FVector_scale (Average (FVector 100 0 0) (FVector 100 0 0)) (1/10)) \<and>
   (FVector 10 0 0, FVector 100 0 0) =
     Integrate (UpdateVelocity ScenarioBullet (GetWorld (ScenarioBarrel EmptyWorld))) (1/10) 1
       (FVector 0 0 0, InitialVelocity (ScenarioBarrel EmptyWorld) ScenarioBullet
          (FVector 0 0 0) (FVector 1 0 0))"
proof -
  let ?s0 = "\<lparr>Time = 0, CurrentLocation = FVector 0 0 0, Velocity = FVector 100 0 0,
       Out = DefaultOutputs\<lparr>Trajectory := []\<rparr>, Events = []\<rparr>"
  let ?s1 = "\<lparr>Time = 13421773/134217728, CurrentLocation = FVector 10 0 0, Velocity = FVector 100 0 0,
        Out = DefaultOutputs\<lparr>Trajectory := [FVector 0 0 0]\<rparr>,
        Events = [UpdateVelocityCall (FVector 0 0 0) (FVector 100 0 0) (1/10),
                  LineTraceCall (FVector 0 0 0) (FVector 10 0 0)]\<rparr>"
  have b: "LoopBody (ScenarioBarrel EmptyWorld) ScenarioBullet [] (1/10) ?s0 = (False, ?s1)"
    by (simp add: LoopBody_scenario DefaultOutputs_def Float32_eval)
  have i: "InitialState (ScenarioBarrel EmptyWorld) DefaultOutputs ScenarioBullet
        (FVector 0 0 0) (FVector 1 0 0) = ?s0"
    by (rule InitialState_scenario)
  have "LoopHead (ScenarioBarrel EmptyWorld) ScenarioBullet [] 1 (1/10) ?s0 (Suc 0) ?s1"
    by (rule LoopHead.pass [OF LoopHead.entry _ b]) simp
  then have h: "LoopHead (ScenarioBarrel EmptyWorld) ScenarioBullet [] 1 (1/10)
     (InitialState (ScenarioBarrel EmptyWorld) DefaultOutputs ScenarioBullet
        (FVector 0 0 0) (FVector 1 0 0)) 1 ?s1"
    using i by simp
  note t = trapezoidal_displacement [of "ScenarioBarrel EmptyWorld" ScenarioBullet "[]" "1/10" ?s0
      False ?s1 1 DefaultOutputs "FVector 0 0 0" "FVector 1 0 0" 1 ?s1]
  from t b have 1: "FVector 10 0 0 =
     FVector_plus (FVector 0 0 0)
       (FVector_scale (Average (FVector 100 0 0) (FVector 100 0 0)) (1/10))"
    by simp
  from t h have 2: "(FVector 10 0 0, FVector 100 0 0) =
     Integrate (UpdateVelocity ScenarioBullet (GetWorld (ScenarioBarrel EmptyWorld))) (1/10) 1
       (FVector 0 0 0, InitialVelocity (ScenarioBarrel EmptyWorld) ScenarioBullet
          (FVector 0 0 0) (FVector 1 0 0))"
    by simp
  from b h 1 2 show ?thesis by blast
qed



text \<open>C9. The model is a function of its arguments, so two calls with the same arguments
  give the same result. What a call needs of the values the caller passes in for the
  outputs is less still: with a valid class the outcome (hit flag, location, time, actor,
  trajectory) and the engine calls made do not depend on them at all, and both calls
  return or neither does; with an invalid class the outputs are the caller's own values,
  so the two calls agree when these do.\<close>

theorem prediction_deterministic:
  assumes "IsValidLowLevel C \<or> out1 = out2"
  shows "map_option (\<lambda>(out, ev). (Outcome out, ev))
           (PredictHitFromLocation this out1 C Start Aim Ign MaxTime Step) =
         map_option (\<lambda>(out, ev). (Outcome out, ev))
           (PredictHitFromLocation this out2 C Start Aim Ign MaxTime Step)"
proof (cases "IsValidLowLevel C")
  case False
  with assms show ?thesis by simp
next
  case True
  have R: "SameRun (InitialState this out1 (GetDefaultObject C) Start Aim)
                   (InitialState this out2 (GetDefaultObject C) Start Aim)"
    by (simp add: SameRun_def InitialState_def)
  have e: "map_option (\<lambda>(out, ev). (Outcome out, ev))
           (PredictHitFromLocation this out C Start Aim Ign MaxTime Step) =
        map_option (\<lambda>(returned, s). (if returned then Outcome (Out s) else Outcome (AfterLoop MaxTime s), Events s))
           (PredictLoop this (GetDefaultObject C) Ign MaxTime Step
              (InitialState this out (GetDefaultObject C) Start Aim))" for out
    using True
    by (simp add: PredictHitFromLocation_def Let_def split: option.splits prod.splits)
  from PredictLoop_SameRun [OF R] show ?thesis by (simp only: e)
qed

theorem prediction_deterministic_witness:
  "(IsValidLowLevel ScenarioClass \<or>
      DefaultOutputs = DefaultOutputs\<lparr>Hit := True, HitTime := 5, Trajectory := [FVector 1 1 1]\<rparr>) \<and>
   map_option (\<lambda>(out, ev). (Outcome out, ev))
     (PredictHitFromLocation (ScenarioBarrel (WallWorld 55 7)) DefaultOutputs ScenarioClass
        (FVector 0 0 0) (FVector 1 0 0) [] 1 (1/10)) =
   map_option (\<lambda>(out, ev). (Outcome out, ev))
     (PredictHitFromLocation (ScenarioBarrel (WallWorld 55 7))
        (DefaultOutputs\<lparr>Hit := True, HitTime := 5, Trajectory := [FVector 1 1 1]\<rparr>) ScenarioClass
        (FVector 0 0 0) (FVector 1 0 0) [] 1 (1/10))"
proof -
  have v: "IsValidLowLevel ScenarioClass \<or>
      DefaultOutputs = DefaultOutputs\<lparr>Hit := True, HitTime := 5, Trajectory := [FVector 1 1 1]\<rparr>"
    by (simp add: ScenarioClass_def)
  from prediction_deterministic [OF v] v show ?thesis by blast
qed


end
